theory Spec2Isabelle
  imports Main
begin

section \<open>quetz/main.py: exceptions, sessions and the persisted state\<close>

text \<open>
  Every \<^verbatim>\<open>raise\<close> of the module, and every exception of a library call it leaves
  uncaught, is a value of \<open>exn\<close>. \<open>HTTPException c\<close> is FastAPI's exception with status
  code \<open>c\<close>, the only exception that carries a status to the caller. \<open>Uncaught e\<close> is a
  Python exception \<open>e\<close> of the standard library or the interpreter, which main.py never
  catches; \<open>OtherError n\<close> stands for any exception class \<open>n\<close> not listed.
\<close>

datatype py_error =
    ReadError
  | EOFError
  | OSError
  | KeyError string
  | TypeError
  | AttributeError
  | JSONDecodeError
  | UnicodeDecodeError
  | FileNotFoundError
  | ValueError
  | OtherError string

datatype exn = HTTPException nat | Uncaught py_error

abbreviation HTTP_400_BAD_REQUEST :: nat where "HTTP_400_BAD_REQUEST \<equiv> 400"
abbreviation HTTP_401_UNAUTHORIZED :: nat where "HTTP_401_UNAUTHORIZED \<equiv> 401"
abbreviation HTTP_403_FORBIDDEN :: nat where "HTTP_403_FORBIDDEN \<equiv> 403"
abbreviation HTTP_404_NOT_FOUND :: nat where "HTTP_404_NOT_FOUND \<equiv> 404"
abbreviation HTTP_409_CONFLICT :: nat where "HTTP_409_CONFLICT \<equiv> 409"

text \<open>
  \<open>request.session\<close> is a Python dict with string keys. \<open>session.get(k)\<close> is
  \<open>session k\<close> (\<open>None\<close> when the key is absent), \<open>session[k] = v\<close> is
  \<open>session(k \<mapsto> v)\<close> and \<open>session.pop(k, None)\<close> is \<open>pop k session\<close>.
\<close>

type_synonym session = "string \<Rightarrow> string option"

definition pop :: "string \<Rightarrow> session \<Rightarrow> session" where
  "pop k session = session(k := None)"

text \<open>Python truthiness of an optional string: \<open>None\<close> and \<open>''\<close> are falsy.\<close>

fun truthy :: "string option \<Rightarrow> bool" where
  "truthy None = False"
| "truthy (Some s) = (s \<noteq> [])"

text \<open>
  User ids are 16 bytes in the database and the session holds their
  \<open>str(uuid.UUID(bytes=...))\<close> text; the model uses one type for both and takes the
  conversion as the identity.
\<close>

type_synonym user_id = string

datatype role = MEMBER | MAINTAINER | OWNER

record profile =
  profile_name :: string
  profile_avatar_url :: string

record channel =
  channel_name :: string
  channel_description :: string

record package =
  package_channel_name :: string
  package_name :: string
  package_description :: string

text \<open>\<open>rest_models.CPRole\<close>: a (channel, package-or-null, role) scoping tuple.\<close>

record cp_role =
  cp_channel :: string
  cp_package :: "string option"
  cp_role :: role

record api_key =
  api_key_key :: string
  api_key_description :: string
  api_key_owner :: user_id
  api_key_roles :: "cp_role list"

text \<open>
  The value of a field of \<open>info/index.json\<close>. \<open>JOther r\<close> is any value that is not
  \<open>null\<close>, a boolean, an integer or a string (a float, an array, a nested object), kept
  with the text \<open>r\<close> that Python's \<open>str()\<close> gives it.
\<close>

datatype json = JNull | JBool bool | JInt int | JStr string | JOther string

text \<open>
  What \<open>json.load\<close> returns for the whole document: a dict (in insertion order, keys
  distinct) or something that is not a dict.
\<close>

datatype document = Dict "(string \<times> json) list" | NonDict json

record package_version =
  version_channel_name :: string
  version_package_name :: string
  version_platform :: json
  version_version :: json
  version_build_number :: json
  version_build_string :: json
  version_filename :: string
  version_info :: document
  version_uploader_id :: user_id

record db =
  users :: "(user_id \<times> string) list"
  profiles :: "(user_id \<times> profile) list"
  channels :: "channel list"
  channel_members :: "(string \<times> user_id \<times> role) list"
  packages :: "package list"
  package_members :: "(string \<times> string \<times> user_id \<times> role) list"
  api_keys :: "api_key list"
  versions :: "package_version list"

section \<open>quetz.authorization.Rules\<close>

text \<open>
  \<open>get_rules\<close> builds \<open>authorization.Rules(request.headers.get('x-api-key'), session, db)\<close>.
  The object keeps a reference to the session dict, so it sees what the handler has done
  to the session before a method is called; the database is passed to each method.
\<close>

record rules =
  API_key :: "string option"
  rules_session :: session

definition get_rules :: "string option \<Rightarrow> session \<Rightarrow> rules" where
  "get_rules x_api_key session = \<lparr>API_key = x_api_key, rules_session = session\<rparr>"

datatype principal = SessionPrincipal user_id | ApiKeyPrincipal api_key

text \<open>
  Modelled from the spec: \<open>quetz/authorization.py\<close> is not among the sources. Section 4.1:
  \<open>resolveApiKey\<close> is an exact lookup of the presented key string against the stored
  keys, \<open>resolveSession\<close> reads the session's stored user id; section 4.2: a principal is a
  session or an API key with at least one scoping tuple. A request that carries the
  API-key header is resolved by the key, any other request by its session.
\<close>

definition resolve_api_key :: "db \<Rightarrow> string \<Rightarrow> principal option" where
  "resolve_api_key d k =
     (case find (\<lambda>a. api_key_key a = k) (api_keys d) of
        None \<Rightarrow> None
      | Some a \<Rightarrow> if api_key_roles a = [] then None else Some (ApiKeyPrincipal a))"

definition resolve_session :: "session \<Rightarrow> principal option" where
  "resolve_session session =
     (case session ''user_id'' of None \<Rightarrow> None | Some u \<Rightarrow> Some (SessionPrincipal u))"

definition resolve_principal :: "rules \<Rightarrow> db \<Rightarrow> principal option" where
  "resolve_principal auth d =
     (case API_key auth of
        Some k \<Rightarrow> resolve_api_key d k
      | None \<Rightarrow> resolve_session (rules_session auth))"

fun principal_user :: "principal \<Rightarrow> user_id" where
  "principal_user (SessionPrincipal u) = u"
| "principal_user (ApiKeyPrincipal a) = api_key_owner a"

text \<open>
  Modelled from the spec: section 4.2, \<open>assertUser\<close> returns the resolved principal's user
  id and fails UNAUTHENTICATED for an anonymous caller.
\<close>

definition assert_user :: "rules \<Rightarrow> db \<Rightarrow> exn + user_id" where
  "assert_user auth d =
     (case resolve_principal auth d of
        None \<Rightarrow> Inl (HTTPException HTTP_401_UNAUTHORIZED)
      | Some p \<Rightarrow> Inr (principal_user p))"

section \<open>quetz.dao.Dao: reads used by the session endpoints\<close>

text \<open>
  Modelled from the spec: \<open>quetz/dao.py\<close> is not among the sources. A user has exactly
  one profile (section 3); the lookups return the row or Python's \<open>None\<close>.
\<close>

definition get_profile :: "db \<Rightarrow> user_id \<Rightarrow> profile option" where
  "get_profile d user_id = map_of (profiles d) user_id"

definition get_user_by_username :: "db \<Rightarrow> string \<Rightarrow> user_id option" where
  "get_user_by_username d username =
     map_option fst (find (\<lambda>u. snd u = username) (users d))"

section \<open>Helper functions and session endpoints of main.py\<close>

text \<open>\<open>logout\<close>, lines 101-104: three \<open>session.pop(key, None)\<close>.\<close>

definition logout :: "session \<Rightarrow> session" where
  "logout session = pop ''token'' (pop ''identity_provider'' (pop ''user_id'' session))"

text \<open>
  \<open>check_token_revocation\<close>, lines 89-98. \<open>auth_github.validate_token\<close> is a call to the
  identity provider: its answer for a token is the parameter \<open>validate_token\<close>, and every
  call is appended to the list of provider calls, so that "the provider was not
  contacted" is "the list did not grow".
\<close>

type_synonym provider_calls = "string option list"

definition check_token_revocation ::
  "(string option \<Rightarrow> bool) \<Rightarrow> session \<times> provider_calls
     \<Rightarrow> (exn + unit) \<times> session \<times> provider_calls" where
  "check_token_revocation validate_token = (\<lambda>(session, calls).
     let identity_provider = session ''identity_provider'' in
     if truthy identity_provider \<and> identity_provider = Some ''github'' then
       let valid = validate_token (session ''token'');
           calls' = calls @ [session ''token'']
       in if \<not> valid
          then (Inl (HTTPException HTTP_401_UNAUTHORIZED), logout session, calls')
          else (Inr (), session, calls')
     else (Inr (), session, calls))"

text \<open>
  \<open>dummy_login\<close>, lines 115-126. When no user has the name, \<open>user\<close> is \<open>None\<close> and
  \<open>user.id\<close> raises AttributeError, after \<open>logout(session)\<close> has run.
\<close>

definition dummy_login :: "string \<Rightarrow> db \<Rightarrow> session \<Rightarrow> (exn + unit) \<times> session" where
  "dummy_login username d session =
     (let user = get_user_by_username d username;
          session1 = logout session
      in case user of
           None \<Rightarrow> (Inl (Uncaught AttributeError), session1)
         | Some uid \<Rightarrow>
             (Inr (), (session1(''user_id'' \<mapsto> uid))(''identity_provider'' \<mapsto> ''dummy'')))"

text \<open>\<open>me\<close>, lines 129-142: GET /me.\<close>

definition me ::
  "(string option \<Rightarrow> bool) \<Rightarrow> string option \<Rightarrow> db \<Rightarrow> session \<times> provider_calls
     \<Rightarrow> (exn + profile option) \<times> session \<times> provider_calls" where
  "me validate_token x_api_key d st =
     (case check_token_revocation validate_token st of
        (Inl e, st') \<Rightarrow> (Inl e, st')
      | (Inr _, (session', calls')) \<Rightarrow>
          (case assert_user (get_rules x_api_key session') d of
             Inl e \<Rightarrow> (Inl e, session', calls')
           | Inr user_id \<Rightarrow> (Inr (get_profile d user_id), session', calls')))"

section \<open>quetz.dao.Dao: channels, packages, versions and API keys\<close>

text \<open>
  Modelled from the spec: \<open>quetz/dao.py\<close> is not among the sources. Section 3: channel
  names and (channel, package name) pairs are unique, the creator of a channel or package
  becomes a member of it with the role handed to the call, and a version's key is
  (package, platform, version, build number, build string). Sections 4.3, 5 and 7: the
  Data Access Layer checks existence and inserts in one atomic step, and a duplicate key
  is the CONFLICT error (409) surfaced to the caller.
\<close>

definition get_channel :: "db \<Rightarrow> string \<Rightarrow> channel option" where
  "get_channel d name = find (\<lambda>c. channel_name c = name) (channels d)"

definition create_channel :: "db \<Rightarrow> channel \<Rightarrow> user_id \<Rightarrow> role \<Rightarrow> (exn + unit) \<times> db" where
  "create_channel d new_channel user_id r =
     (case get_channel d (channel_name new_channel) of
        Some _ \<Rightarrow> (Inl (HTTPException HTTP_409_CONFLICT), d)
      | None \<Rightarrow>
          (Inr (), d\<lparr>channels := channels d @ [new_channel],
                     channel_members := channel_members d
                        @ [(channel_name new_channel, user_id, r)]\<rparr>))"

definition get_package :: "db \<Rightarrow> string \<Rightarrow> string \<Rightarrow> package option" where
  "get_package d cname pname =
     find (\<lambda>p. package_channel_name p = cname \<and> package_name p = pname) (packages d)"

text \<open>\<open>rest_models.Package\<close>, the body of POST /channels/{c}/packages.\<close>

record new_package =
  new_package_name :: string
  new_package_description :: string

definition create_package ::
  "db \<Rightarrow> string \<Rightarrow> new_package \<Rightarrow> user_id \<Rightarrow> role \<Rightarrow> (exn + unit) \<times> db" where
  "create_package d cname np user_id r =
     (case get_package d cname (new_package_name np) of
        Some _ \<Rightarrow> (Inl (HTTPException HTTP_409_CONFLICT), d)
      | None \<Rightarrow>
          (Inr (), d\<lparr>packages := packages d
                        @ [\<lparr>package_channel_name = cname,
                            package_name = new_package_name np,
                            package_description = new_package_description np\<rparr>],
                     package_members := package_members d
                        @ [(cname, new_package_name np, user_id, r)]\<rparr>))"

definition same_version_key ::
  "package \<Rightarrow> json \<Rightarrow> json \<Rightarrow> json \<Rightarrow> json \<Rightarrow> package_version \<Rightarrow> bool" where
  "same_version_key p platform version build_number build_string v =
     (version_channel_name v = package_channel_name p
      \<and> version_package_name v = package_name p
      \<and> version_platform v = platform
      \<and> version_version v = version
      \<and> version_build_number v = build_number
      \<and> version_build_string v = build_string)"

definition create_version ::
  "db \<Rightarrow> package \<Rightarrow> json \<Rightarrow> json \<Rightarrow> json \<Rightarrow> json \<Rightarrow> string \<Rightarrow> document \<Rightarrow> user_id
     \<Rightarrow> (exn + unit) \<times> db" where
  "create_version d p platform version build_number build_string fname info uploader_id =
     (if list_ex (same_version_key p platform version build_number build_string) (versions d)
      then (Inl (HTTPException HTTP_409_CONFLICT), d)
      else (Inr (), d\<lparr>versions := versions d
              @ [\<lparr>version_channel_name = package_channel_name p,
                  version_package_name = package_name p,
                  version_platform = platform,
                  version_version = version,
                  version_build_number = build_number,
                  version_build_string = build_string,
                  version_filename = fname,
                  version_info = info,
                  version_uploader_id = uploader_id\<rparr>]\<rparr>))"

text \<open>\<open>rest_models.BaseApiKey\<close>, the body of POST /api-keys.\<close>

record base_api_key =
  base_description :: string
  base_roles :: "cp_role list"

definition create_api_key :: "db \<Rightarrow> user_id \<Rightarrow> base_api_key \<Rightarrow> string \<Rightarrow> db" where
  "create_api_key d user_id b k =
     d\<lparr>api_keys := api_keys d
          @ [\<lparr>api_key_key = k, api_key_description = base_description b,
              api_key_owner = user_id, api_key_roles = base_roles b\<rparr>]\<rparr>"

text \<open>
  \<open>dao.get_api_keys(user_id)\<close> returns (member, api_key) pairs, as \<open>get_api_keys\<close> of
  main.py unpacks them: one pair for each scoping tuple of each key of the user, the
  pairs of one key next to each other.
\<close>

definition dao_get_api_keys :: "db \<Rightarrow> user_id \<Rightarrow> (cp_role \<times> api_key) list" where
  "dao_get_api_keys d user_id =
     concat (map (\<lambda>a. map (\<lambda>m. (m, a)) (api_key_roles a))
                 (filter (\<lambda>a. api_key_owner a = user_id) (api_keys d)))"

section \<open>quetz.authorization: roles and the remaining assertions\<close>

text \<open>
  Modelled from the spec: section 3 orders the roles MEMBER < MAINTAINER < OWNER; section
  4.2 resolves the effective role at a scope as the maximum rank of the package-scope row
  and the channel-scope row (no row: below MEMBER), and bounds an API key by its own
  scoping tuples and by what its owning user holds. \<open>assertUploadFile\<close> needs at least
  MAINTAINER at the package, \<open>assertCreateApiKeyRoles\<close> needs, for each requested tuple,
  at least the tuple's role at the tuple's scope. PERMISSION_DENIED is status 403.
\<close>

fun rank :: "role \<Rightarrow> nat" where
  "rank MEMBER = 1"
| "rank MAINTAINER = 2"
| "rank OWNER = 3"

definition channel_rank :: "db \<Rightarrow> user_id \<Rightarrow> string \<Rightarrow> nat" where
  "channel_rank d u c =
     (case find (\<lambda>(c', u', r). c' = c \<and> u' = u) (channel_members d) of
        None \<Rightarrow> 0 | Some (c', u', r) \<Rightarrow> rank r)"

definition package_rank :: "db \<Rightarrow> user_id \<Rightarrow> string \<Rightarrow> string \<Rightarrow> nat" where
  "package_rank d u c p =
     (case find (\<lambda>(c', p', u', r). c' = c \<and> p' = p \<and> u' = u) (package_members d) of
        None \<Rightarrow> 0 | Some (c', p', u', r) \<Rightarrow> rank r)"

definition user_rank :: "db \<Rightarrow> user_id \<Rightarrow> string \<Rightarrow> string option \<Rightarrow> nat" where
  "user_rank d u c p =
     max (case p of None \<Rightarrow> 0 | Some pn \<Rightarrow> package_rank d u c pn) (channel_rank d u c)"

definition key_rank :: "api_key \<Rightarrow> string \<Rightarrow> string option \<Rightarrow> nat" where
  "key_rank a c p =
     fold max
       (map (\<lambda>t. rank (cp_role t))
          (filter (\<lambda>t. cp_channel t = c \<and> (cp_package t = None \<or> cp_package t = p))
             (api_key_roles a)))
       0"

fun effective_rank :: "db \<Rightarrow> principal \<Rightarrow> string \<Rightarrow> string option \<Rightarrow> nat" where
  "effective_rank d (SessionPrincipal u) c p = user_rank d u c p"
| "effective_rank d (ApiKeyPrincipal a) c p =
     min (key_rank a c p) (user_rank d (api_key_owner a) c p)"

definition assert_upload_file :: "rules \<Rightarrow> db \<Rightarrow> string \<Rightarrow> string \<Rightarrow> exn + user_id" where
  "assert_upload_file auth d c p =
     (case resolve_principal auth d of
        None \<Rightarrow> Inl (HTTPException HTTP_401_UNAUTHORIZED)
      | Some pr \<Rightarrow>
          if rank MAINTAINER \<le> effective_rank d pr c (Some p)
          then Inr (principal_user pr)
          else Inl (HTTPException HTTP_403_FORBIDDEN))"

definition assert_create_api_key_roles :: "rules \<Rightarrow> db \<Rightarrow> cp_role list \<Rightarrow> exn + user_id" where
  "assert_create_api_key_roles auth d roles =
     (case resolve_principal auth d of
        None \<Rightarrow> Inl (HTTPException HTTP_401_UNAUTHORIZED)
      | Some pr \<Rightarrow>
          if list_all (\<lambda>t. rank (cp_role t) \<le> effective_rank d pr (cp_channel t) (cp_package t))
               roles
          then Inr (principal_user pr)
          else Inl (HTTPException HTTP_403_FORBIDDEN))"

section \<open>Channel, package and API-key endpoints of main.py\<close>

text \<open>\<open>get_channel_or_fail\<close>, lines 62-70, and \<open>get_package_or_fail\<close>, lines 73-84.\<close>

definition get_channel_or_fail :: "db \<Rightarrow> string \<Rightarrow> exn + channel" where
  "get_channel_or_fail d cname =
     (case get_channel d cname of
        None \<Rightarrow> Inl (HTTPException HTTP_404_NOT_FOUND)
      | Some c \<Rightarrow> Inr c)"

definition get_package_or_fail :: "db \<Rightarrow> string \<Rightarrow> string \<Rightarrow> exn + package" where
  "get_package_or_fail d cname pname =
     (case get_channel_or_fail d cname of
        Inl e \<Rightarrow> Inl e
      | Inr c \<Rightarrow>
          (case get_package d (channel_name c) pname of
             None \<Rightarrow> Inl (HTTPException HTTP_404_NOT_FOUND)
           | Some p \<Rightarrow> Inr p))"

text \<open>\<open>post_channel\<close>, lines 186-201: POST /channels.\<close>

definition post_channel :: "channel \<Rightarrow> rules \<Rightarrow> db \<Rightarrow> (exn + unit) \<times> db" where
  "post_channel new_channel auth d =
     (case assert_user auth d of
        Inl e \<Rightarrow> (Inl e, d)
      | Inr user_id \<Rightarrow>
          (case get_channel d (channel_name new_channel) of
             Some _ \<Rightarrow> (Inl (HTTPException HTTP_409_CONFLICT), d)
           | None \<Rightarrow> create_channel d new_channel user_id OWNER))"

text \<open>\<open>post_package\<close>, lines 221-235: POST /channels/{channel_name}/packages.\<close>

definition post_package :: "string \<Rightarrow> new_package \<Rightarrow> rules \<Rightarrow> db \<Rightarrow> (exn + unit) \<times> db" where
  "post_package cname np auth d =
     (case get_channel_or_fail d cname of
        Inl e \<Rightarrow> (Inl e, d)
      | Inr c \<Rightarrow>
          (case assert_user auth d of
             Inl e \<Rightarrow> (Inl e, d)
           | Inr user_id \<Rightarrow>
               (case get_package d (channel_name c) (new_package_name np) of
                  Some _ \<Rightarrow> (Inl (HTTPException HTTP_409_CONFLICT), d)
                | None \<Rightarrow> create_package d (channel_name c) np user_id OWNER)))"

text \<open>
  What a handler hands back as the response body: Python's \<open>None\<close> (JSON \<open>null\<close>) when
  the function ends without a \<open>return\<close>, or the list of \<open>rest_models.ApiKey\<close>.
\<close>

record rest_api_key =
  rest_key :: string
  rest_description :: string
  rest_roles :: "cp_role list"

datatype response = Null | ApiKeys "rest_api_key list"

fun secrets_in :: "response \<Rightarrow> string list" where
  "secrets_in Null = []"
| "secrets_in (ApiKeys ks) = map rest_key ks"

text \<open>
  \<open>itertools.groupby(xs, key)\<close>: the maximal runs of consecutive elements with equal
  keys, each with its key, in order.
\<close>

fun group_step :: "('a \<Rightarrow> 'k) \<Rightarrow> 'a \<Rightarrow> ('k \<times> 'a list) list \<Rightarrow> ('k \<times> 'a list) list" where
  "group_step f x [] = [(f x, [x])]"
| "group_step f x ((k, g) # rest) =
     (if f x = k then (k, x # g) # rest else (f x, [x]) # (k, g) # rest)"

definition groupby :: "('a \<Rightarrow> 'k) \<Rightarrow> 'a list \<Rightarrow> ('k \<times> 'a list) list" where
  "groupby f xs = foldr (group_step f) xs []"

text \<open>\<open>get_api_keys\<close>, lines 328-349: GET /api-keys.\<close>

definition get_api_keys :: "rules \<Rightarrow> db \<Rightarrow> exn + response" where
  "get_api_keys auth d =
     (case assert_user auth d of
        Inl e \<Rightarrow> Inl e
      | Inr user_id \<Rightarrow>
          Inr (ApiKeys
            (map (\<lambda>(a, member_key_list).
                    \<lparr>rest_key = api_key_key a,
                     rest_description = api_key_description a,
                     rest_roles = map fst member_key_list\<rparr>)
                 (groupby snd (dao_get_api_keys d user_id)))))"

text \<open>
  \<open>post_api_key\<close>, lines 352-363: POST /api-keys. The value of
  \<open>secrets.token_urlsafe(32)\<close> is the parameter \<open>key\<close>. The function has no \<open>return\<close>.
\<close>

definition post_api_key :: "base_api_key \<Rightarrow> string \<Rightarrow> rules \<Rightarrow> db \<Rightarrow> (exn + response) \<times> db" where
  "post_api_key b key auth d =
     (case assert_create_api_key_roles auth d (base_roles b) of
        Inl e \<Rightarrow> (Inl e, d)
      | Inr _ \<Rightarrow>
          (case assert_user auth d of
             Inl e \<Rightarrow> (Inl e, d)
           | Inr user_id \<Rightarrow> (Inr Null, create_api_key d user_id b key)))"

section \<open>The upload endpoint of main.py\<close>

text \<open>
  An uploaded file (\<open>UploadFile\<close>): the client's file name, the raw bytes, and what the
  standard library finds when it reads those bytes, which the model takes as given.
  \<open>Unreadable e\<close>: \<open>tarfile.open(mode="r:bz2")\<close>, or the scan of the archive for the
  member, raises \<open>e\<close> (ReadError for bytes that are no bzip2 tar, EOFError or OSError for
  a truncated or damaged stream, or any other exception of the library). \<open>TarBz2 ms\<close>:
  the archive opens and has the members \<open>ms\<close>, in archive order. A member is not a
  regular file (\<open>NonRegular\<close>), or reading and parsing it raises an exception
  (\<open>Undecodable e\<close>: JSONDecodeError for text that is not JSON, UnicodeDecodeError for
  bytes that are not UTF-8, and so on), or it parses to a document.
\<close>

datatype tar_member = NonRegular | Undecodable py_error | Json document

datatype archive = Unreadable py_error | TarBz2 "(string \<times> tar_member) list"

record upload_file =
  upload_filename :: string
  upload_content :: string
  upload_archive :: archive

text \<open>
  Lines 377-378. Of several members with one name \<open>tarfile\<close> takes the last;
  \<open>tar.extractfile\<close> raises KeyError for a missing member and returns \<open>None\<close> for a
  member that is not a regular file, on which \<open>json.load\<close> raises AttributeError. None
  of these exceptions is an HTTPException, and nothing in main.py catches them.
\<close>

definition read_index :: "upload_file \<Rightarrow> py_error + document" where
  "read_index file =
     (case upload_archive file of
        Unreadable e \<Rightarrow> Inl e
      | TarBz2 members \<Rightarrow>
          (case map_of (rev members) ''info/index.json'' of
             None \<Rightarrow> Inl (KeyError ''info/index.json'')
           | Some NonRegular \<Rightarrow> Inl AttributeError
           | Some (Undecodable e) \<Rightarrow> Inl e
           | Some (Json info) \<Rightarrow> Inr info))"

text \<open>\<open>info[k]\<close>: KeyError on a dict without the key, TypeError on anything but a dict.\<close>

fun getitem :: "document \<Rightarrow> string \<Rightarrow> py_error + json" where
  "getitem (NonDict v) k = Inl TypeError"
| "getitem (Dict kvs) k = (case map_of kvs k of None \<Rightarrow> Inl (KeyError k) | Some v \<Rightarrow> Inr v)"

text \<open>What an f-string puts for a value: \<open>str(v)\<close>.\<close>

definition digit :: "nat \<Rightarrow> char" where
  "digit n = ''0123456789'' ! n"

fun str_nat :: "nat \<Rightarrow> string" where
  "str_nat n = (if n < 10 then [digit n] else str_nat (n div 10) @ [digit (n mod 10)])"

declare str_nat.simps [simp del]

definition str_int :: "int \<Rightarrow> string" where
  "str_int i = (if i < 0 then CHR ''-'' # str_nat (nat (- i)) else str_nat (nat i))"

fun py_str :: "json \<Rightarrow> string" where
  "py_str JNull = ''None''"
| "py_str (JBool b) = (if b then ''True'' else ''False'')"
| "py_str (JInt i) = str_int i"
| "py_str (JStr s) = s"
| "py_str (JOther r) = r"

text \<open>
  What a request can change: the database, the files under \<open>static/channels\<close> (path to
  bytes), the directories handed to \<open>os.makedirs\<close> (the ancestors it makes on the way
  are not tracked), and the calls of \<open>subprocess.run\<close>, each with its arguments and its
  outcome. Two spellings of one path are two keys.
\<close>

record world =
  world_db :: db
  world_files :: "string \<Rightarrow> string option"
  world_dirs :: "string set"
  world_subprocess :: "(string list \<times> (py_error + int)) list"

text \<open>
  The operating system decides whether lines 385-389 succeed, from the files and
  directories there are and the path it is given; the model takes its answers as
  parameters. \<open>os_makedirs\<close>: the exception of \<open>os.makedirs(dir, exist_ok=True)\<close>, if
  any (ValueError for a NUL in the path, FileExistsError or NotADirectoryError for a
  file in the way, PermissionError, ...). \<open>os_open\<close>: the exception of
  \<open>open(path, 'wb')\<close>, if any (FileNotFoundError when the file name contains a \<open>/\<close> and
  names a directory that is not there, ValueError, IsADirectoryError, ...).
  \<open>os_copy\<close>: the exception of \<open>shutil.copyfileobj\<close>, if any, with the number of bytes
  that reached the file before it.
\<close>

record os =
  os_makedirs :: "(string \<Rightarrow> string option) \<Rightarrow> string set \<Rightarrow> string \<Rightarrow> py_error option"
  os_open :: "(string \<Rightarrow> string option) \<Rightarrow> string set \<Rightarrow> string \<Rightarrow> py_error option"
  os_copy :: "(string \<Rightarrow> string option) \<Rightarrow> string set \<Rightarrow> string \<Rightarrow> string
                \<Rightarrow> (py_error \<times> nat) option"

text \<open>
  The body of the loop of \<open>post_file\<close>, lines 377-401, for one file. \<open>parts[0]\<close> of
  \<open>file.filename.split('-')\<close> is the file name up to its first \<open>-\<close>; \<open>or\<close> does not
  evaluate \<open>info['name']\<close> when the prefix already differs. \<open>open(path, 'wb')\<close> empties
  a file that is there, and \<open>copyfileobj\<close> then writes the upload's bytes from their
  start (\<open>seek(0)\<close>). \<open>info['subdir']\<close> is read again at line 395, with the value it had
  at line 384. The keyword arguments of \<open>dao.create_version\<close> are evaluated in the order
  written, and the row keeps the parsed document in place of its \<open>json.dumps\<close> text.
\<close>

definition upload_one ::
  "rules \<Rightarrow> package \<Rightarrow> string \<Rightarrow> os \<Rightarrow> upload_file \<Rightarrow> world \<Rightarrow> (exn + unit) \<times> world" where
  "upload_one auth p channel_dir sys file w =
     (case read_index file of
        Inl e \<Rightarrow> (Inl (Uncaught e), w)
      | Inr info \<Rightarrow>
     if takeWhile (\<lambda>c. c \<noteq> CHR ''-'') (upload_filename file) \<noteq> package_name p
     then (Inl (HTTPException HTTP_400_BAD_REQUEST), w)
     else
     (case getitem info ''name'' of
        Inl e \<Rightarrow> (Inl (Uncaught e), w)
      | Inr name \<Rightarrow>
     if name \<noteq> JStr (package_name p)
     then (Inl (HTTPException HTTP_400_BAD_REQUEST), w)
     else
     (case getitem info ''subdir'' of
        Inl e \<Rightarrow> (Inl (Uncaught e), w)
      | Inr subdir \<Rightarrow>
     let dir = channel_dir @ ''/'' @ py_str subdir @ ''/'' in
     (case os_makedirs sys (world_files w) (world_dirs w) dir of
        Some e \<Rightarrow> (Inl (Uncaught e), w)
      | None \<Rightarrow>
     let w1 = w\<lparr>world_dirs := insert dir (world_dirs w)\<rparr>;
         path = dir @ ''/'' @ upload_filename file
     in
     (case os_open sys (world_files w1) (world_dirs w1) path of
        Some e \<Rightarrow> (Inl (Uncaught e), w1)
      | None \<Rightarrow>
     (case os_copy sys (world_files w1) (world_dirs w1) path (upload_content file) of
        Some (e, n) \<Rightarrow>
          (Inl (Uncaught e),
           w1\<lparr>world_files := (world_files w1)(path \<mapsto> take n (upload_content file))\<rparr>)
      | None \<Rightarrow>
     let w2 = w1\<lparr>world_files := (world_files w1)(path \<mapsto> upload_content file)\<rparr> in
     (case assert_user auth (world_db w2) of
        Inl e \<Rightarrow> (Inl e, w2)
      | Inr user_id \<Rightarrow>
     (case getitem info ''version'' of
        Inl e \<Rightarrow> (Inl (Uncaught e), w2)
      | Inr version \<Rightarrow>
     (case getitem info ''build_number'' of
        Inl e \<Rightarrow> (Inl (Uncaught e), w2)
      | Inr build_number \<Rightarrow>
     (case getitem info ''build'' of
        Inl e \<Rightarrow> (Inl (Uncaught e), w2)
      | Inr build \<Rightarrow>
     (case create_version (world_db w2) p subdir version build_number build
             (upload_filename file) info user_id of
        (r, d') \<Rightarrow> (r, w2\<lparr>world_db := d'\<rparr>))))))))))))"

text \<open>The loop \<open>for file in files\<close>: an exception ends it, and the request.\<close>

fun upload_files ::
  "rules \<Rightarrow> package \<Rightarrow> string \<Rightarrow> os \<Rightarrow> upload_file list \<Rightarrow> world
     \<Rightarrow> (exn + unit) \<times> world" where
  "upload_files auth p channel_dir sys [] w = (Inr (), w)"
| "upload_files auth p channel_dir sys (file # files) w =
     (case upload_one auth p channel_dir sys file w of
        (Inl e, w') \<Rightarrow> (Inl e, w')
      | (Inr _, w') \<Rightarrow> upload_files auth p channel_dir sys files w')"

text \<open>
  \<open>post_file\<close>, lines 366-403: POST /channels/{channel_name}/packages/{package_name}/files/.
  \<open>conda_index\<close> is the outcome of \<open>subprocess.run(['conda', 'index', channel_dir])\<close>:
  an exception (the program cannot be started), which ends the request, or the exit
  status of the program, which is not looked at since \<open>check\<close> is not set.
\<close>

definition post_file ::
  "string \<Rightarrow> string \<Rightarrow> upload_file list \<Rightarrow> os \<Rightarrow> py_error + int \<Rightarrow> rules \<Rightarrow> world
     \<Rightarrow> (exn + response) \<times> world" where
  "post_file cname pname files sys conda_index auth w =
     (case get_package_or_fail (world_db w) cname pname of
        Inl e \<Rightarrow> (Inl e, w)
      | Inr p \<Rightarrow>
     (case assert_upload_file auth (world_db w) (package_channel_name p) (package_name p) of
        Inl e \<Rightarrow> (Inl e, w)
      | Inr _ \<Rightarrow>
     let channel_dir = ''static/channels/'' @ package_channel_name p in
     (case upload_files auth p channel_dir sys files w of
        (Inl e, w') \<Rightarrow> (Inl e, w')
      | (Inr _, w') \<Rightarrow>
          (let w'' = w'\<lparr>world_subprocess := world_subprocess w'
                         @ [([''conda'', ''index'', channel_dir], conda_index)]\<rparr>
           in case conda_index of
                Inl e \<Rightarrow> (Inl (Uncaught e), w'')
              | Inr exit_status \<Rightarrow> (Inr Null, w'')))))"

section \<open>Two POST /channels requests in flight\<close>

text \<open>
  A request handled by \<open>post_channel\<close> touches the database three times: the principal
  is resolved, the channel is looked up, the channel is created. Each call of the Data
  Access Layer is one atomic step (spec section 5: it serialises conflicting writes in
  the store's transactions); between two of these another request may run. A handler is at one of these points or has finished with its
  result.
\<close>

datatype pc = AtAssertUser | AtGetChannel user_id | AtCreateChannel user_id
  | Finished "exn + unit"

fun post_channel_step :: "channel \<Rightarrow> rules \<Rightarrow> pc \<Rightarrow> db \<Rightarrow> pc \<times> db" where
  "post_channel_step new_channel auth AtAssertUser d =
     (case assert_user auth d of
        Inl e \<Rightarrow> (Finished (Inl e), d)
      | Inr user_id \<Rightarrow> (AtGetChannel user_id, d))"
| "post_channel_step new_channel auth (AtGetChannel user_id) d =
     (case get_channel d (channel_name new_channel) of
        Some _ \<Rightarrow> (Finished (Inl (HTTPException HTTP_409_CONFLICT)), d)
      | None \<Rightarrow> (AtCreateChannel user_id, d))"
| "post_channel_step new_channel auth (AtCreateChannel user_id) d =
     (case create_channel d new_channel user_id OWNER of (r, d') \<Rightarrow> (Finished r, d'))"
| "post_channel_step new_channel auth (Finished r) d = (Finished r, d)"

text \<open>
  Two requests under a schedule: \<open>True\<close> lets the first handler take its next step,
  \<open>False\<close> the second. A finished handler's step changes nothing.
\<close>

fun interleave ::
  "channel \<Rightarrow> rules \<Rightarrow> channel \<Rightarrow> rules \<Rightarrow> bool list \<Rightarrow> pc \<times> pc \<times> db \<Rightarrow> pc \<times> pc \<times> db" where
  "interleave c1 a1 c2 a2 [] st = st"
| "interleave c1 a1 c2 a2 (b # bs) (p1, p2, d) =
     (if b
      then (case post_channel_step c1 a1 p1 d of
              (p1', d') \<Rightarrow> interleave c1 a1 c2 a2 bs (p1', p2, d'))
      else (case post_channel_step c2 a2 p2 d of
              (p2', d') \<Rightarrow> interleave c1 a1 c2 a2 bs (p1, p2', d')))"

text \<open>
  How many database steps a handler still has to take, and what holds of two handlers
  for the same fresh channel name \<open>n\<close> at every moment of every schedule: the database
  holds the API keys it started with, and either no channel \<open>n\<close> exists and neither
  handler has finished, or exactly one channel \<open>n\<close> exists, one handler has finished with
  success and the other is still under way or has finished with 409.
\<close>

fun remaining :: "pc \<Rightarrow> nat" where
  "remaining AtAssertUser = 3"
| "remaining (AtGetChannel u) = 2"
| "remaining (AtCreateChannel u) = 1"
| "remaining (Finished r) = 0"

definition under_way :: "user_id \<Rightarrow> pc \<Rightarrow> bool" where
  "under_way u p = (p = AtAssertUser \<or> p = AtGetChannel u \<or> p = AtCreateChannel u)"

definition named :: "string \<Rightarrow> db \<Rightarrow> channel list" where
  "named n d = filter (\<lambda>c. channel_name c = n) (channels d)"

definition race_inv :: "string \<Rightarrow> db \<Rightarrow> user_id \<Rightarrow> user_id \<Rightarrow> pc \<times> pc \<times> db \<Rightarrow> bool" where
  "race_inv n d0 u1 u2 = (\<lambda>(p1, p2, d).
     api_keys d = api_keys d0
     \<and> ((named n d = [] \<and> under_way u1 p1 \<and> under_way u2 p2)
        \<or> (length (named n d) = 1 \<and> p1 = Finished (Inr ())
             \<and> (under_way u2 p2 \<or> p2 = Finished (Inl (HTTPException HTTP_409_CONFLICT))))
        \<or> (length (named n d) = 1 \<and> p2 = Finished (Inr ())
             \<and> (under_way u1 p1 \<or> p1 = Finished (Inl (HTTPException HTTP_409_CONFLICT))))))"

section \<open>A small installation, used to run the endpoints\<close>

text \<open>
  One user, alice, who owns the channel \<open>main\<close> and its package \<open>numpy\<close>, and a second
  user, bob, with no role anywhere. Alice's session is the one \<open>dummy_login\<close> sets up.
\<close>

definition example_db :: db where
  "example_db =
     \<lparr>users = [(''u-alice'', ''alice''), (''u-bob'', ''bob'')],
      profiles = [(''u-alice'', \<lparr>profile_name = ''Alice'', profile_avatar_url = []\<rparr>)],
      channels = [\<lparr>channel_name = ''main'', channel_description = []\<rparr>],
      channel_members = [(''main'', ''u-alice'', OWNER)],
      packages = [\<lparr>package_channel_name = ''main'', package_name = ''numpy'',
                   package_description = []\<rparr>],
      package_members = [(''main'', ''numpy'', ''u-alice'', OWNER)],
      api_keys = [],
      versions = []\<rparr>"

definition alice_session :: session where
  "alice_session = (Map.empty(''user_id'' \<mapsto> ''u-alice''))(''identity_provider'' \<mapsto> ''dummy'')"

definition bob_session :: session where
  "bob_session = (Map.empty(''user_id'' \<mapsto> ''u-bob''))(''identity_provider'' \<mapsto> ''dummy'')"

definition github_session :: session where
  "github_session =
     ((Map.empty(''user_id'' \<mapsto> ''u-alice''))(''identity_provider'' \<mapsto> ''github''))
       (''token'' \<mapsto> ''gho_revoked'')"

definition example_world :: world where
  "example_world =
     \<lparr>world_db = example_db, world_files = Map.empty, world_dirs = {},
      world_subprocess = []\<rparr>"

text \<open>
  An operating system for the examples: a path with a NUL is a ValueError, a file can
  be opened for writing only in a directory that has been made (a path names its
  directory by its segments between slashes, empty segments dropped), and copying
  never fails.
\<close>

fun split_on :: "char \<Rightarrow> string \<Rightarrow> string list" where
  "split_on c [] = [[]]"
| "split_on c (x # xs) =
     (if x = c then [] # split_on c xs
      else (case split_on c xs of [] \<Rightarrow> [[x]] | s # ss \<Rightarrow> (x # s) # ss))"

definition segments :: "string \<Rightarrow> string list" where
  "segments path = filter (\<lambda>s. s \<noteq> []) (split_on CHR ''/'' path)"

definition example_os :: os where
  "example_os =
     \<lparr>os_makedirs = (\<lambda>files dirs path.
        if CHR 0x00 \<in> set path then Some ValueError else None),
      os_open = (\<lambda>files dirs path.
        if CHR 0x00 \<in> set path then Some ValueError
        else if butlast (segments path) \<notin> segments ` dirs then Some FileNotFoundError
        else None),
      os_copy = (\<lambda>files dirs path content. None)\<rparr>"

definition numpy_info :: document where
  "numpy_info =
     Dict [(''name'', JStr ''numpy''), (''subdir'', JStr ''linux-64''),
           (''version'', JStr ''1.0''), (''build_number'', JInt 0), (''build'', JStr ''py_0'')]"

definition numpy_upload :: "string \<Rightarrow> upload_file" where
  "numpy_upload bytes =
     \<lparr>upload_filename = ''numpy-1.0-py_0.tar.bz2'', upload_content = bytes,
      upload_archive = TarBz2 [(''info/index.json'', Json numpy_info)]\<rparr>"

definition numpy_path :: string where
  "numpy_path = ''static/channels/main/linux-64//numpy-1.0-py_0.tar.bz2''"

definition misnamed_upload :: upload_file where
  "misnamed_upload =
     \<lparr>upload_filename = ''scipy-1.0-py_0.tar.bz2'', upload_content = ''SSSS'',
      upload_archive = TarBz2 [(''info/index.json'', Json numpy_info)]\<rparr>"

definition corrupt_upload :: "string \<Rightarrow> upload_file" where
  "corrupt_upload fname =
     \<lparr>upload_filename = fname, upload_content = ''not a tar'',
      upload_archive = Unreadable ReadError\<rparr>"

definition invalid_json_upload :: upload_file where
  "invalid_json_upload =
     \<lparr>upload_filename = ''numpy-2.0-py_0.tar.bz2'', upload_content = ''JJJJ'',
      upload_archive = TarBz2 [(''info/index.json'', Undecodable UnicodeDecodeError)]\<rparr>"

text \<open>A file name that passes the prefix check and names a directory that is not there.\<close>

definition nested_upload :: upload_file where
  "nested_upload =
     \<lparr>upload_filename = ''numpy-1.0/x.tar.bz2'', upload_content = ''NNNN'',
      upload_archive = TarBz2 [(''info/index.json'', Json numpy_info)]\<rparr>"

text \<open>Alice uploads numpy 1.0 with the bytes \<open>AAAA\<close>; \<open>conda index\<close> exits with status 1.\<close>

definition first_upload :: "(exn + response) \<times> world" where
  "first_upload = post_file ''main'' ''numpy'' [numpy_upload ''AAAA''] example_os (Inr 1)
        (get_rules None alice_session) example_world"

text \<open>Two requests for one new channel name, and a request for a new package.\<close>

definition conda_forge :: "string \<Rightarrow> channel" where
  "conda_forge description =
     \<lparr>channel_name = ''conda-forge'', channel_description = description\<rparr>"

definition scipy_package :: new_package where
  "scipy_package = \<lparr>new_package_name = ''scipy'', new_package_description = []\<rparr>"

definition example_key_request :: base_api_key where
  "example_key_request =
     \<lparr>base_description = ''ci'',
      base_roles = [\<lparr>cp_channel = ''main'', cp_package = None, cp_role = MAINTAINER\<rparr>]\<rparr>"

section \<open>Sessions: logout and token revocation\<close>

lemma logout_apply:
  "logout s k = (if k = ''user_id'' \<or> k = ''identity_provider'' \<or> k = ''token'' then None else s k)"
  by (simp add: logout_def pop_def)

lemma logout_idem: "logout (logout s) = logout s"
  by (rule ext) (simp add: logout_apply)

lemma check_token_revocation_logged_out:
  "check_token_revocation vt (logout s, calls) = (Inr (), logout s, calls)"
  by (simp add: check_token_revocation_def logout_apply)

text \<open>
  C7. \<open>logout\<close> removes the keys \<open>user_id\<close>, \<open>identity_provider\<close> and \<open>token\<close> from the
  session; applying it twice gives the same session as applying it once; and a GET /me
  on the logged-out session (a request with that session and no API-key header) is
  answered 401 without contacting the provider and leaves the session as it is.
\<close>

theorem logout_clears_and_is_idempotent:
  "logout s ''user_id'' = None \<and> logout s ''identity_provider'' = None
   \<and> logout s ''token'' = None
   \<and> logout (logout s) = logout s
   \<and> me vt None d (logout s, calls)
       = (Inl (HTTPException HTTP_401_UNAUTHORIZED), logout s, calls)"
  by (simp add: logout_idem logout_apply me_def check_token_revocation_logged_out
      assert_user_def resolve_principal_def resolve_session_def get_rules_def)

text \<open>
  C10. When the session's \<open>identity_provider\<close> is absent or is anything but \<open>github\<close>,
  \<open>check_token_revocation\<close> returns normally, leaves the session as it is and makes no
  call to the provider, whatever the provider would answer.
\<close>

theorem revocation_check_only_for_github:
  assumes "session ''identity_provider'' \<noteq> Some ''github''"
  shows "check_token_revocation vt (session, calls) = (Inr (), session, calls)"
  using assms by (simp add: check_token_revocation_def)

lemma dummy_login_alice:
  "dummy_login ''alice'' example_db Map.empty = (Inr (), alice_session)"
  by (simp add: dummy_login_def get_user_by_username_def example_db_def alice_session_def
      logout_def pop_def)

text \<open>
  The session that \<open>dummy_login\<close> sets up for alice records the provider \<open>dummy\<close>; the
  check leaves it alone even with a provider that would reject every token.
\<close>

theorem revocation_check_only_for_github_witness:
  "snd (dummy_login ''alice'' example_db Map.empty) ''identity_provider'' = Some ''dummy''
   \<and> check_token_revocation (\<lambda>_. False)
        (snd (dummy_login ''alice'' example_db Map.empty), [])
      = (Inr (), alice_session, [])"
proof -
  have s: "snd (dummy_login ''alice'' example_db Map.empty) = alice_session"
    by (simp add: dummy_login_alice)
  have h: "alice_session ''identity_provider'' \<noteq> Some ''github''"
    by (simp add: alice_session_def)
  show ?thesis
    using revocation_check_only_for_github
      [where session = alice_session and vt = "\<lambda>_. False" and calls = "[]"] h s
    by (simp add: alice_session_def)
qed

text \<open>
  C6. The external identity provider of this program is GitHub (\<open>auth_github\<close>): a
  session records it as \<open>identity_provider = github\<close>. When the provider does not
  confirm the stored token, \<open>check_token_revocation\<close> asks the provider once, logs the
  session out (the three fields are gone) and raises 401, and so GET /me answers 401
  with the session cleared, whatever API-key header the request carries.
\<close>

theorem revoked_github_session_is_logged_out:
  assumes "session ''identity_provider'' = Some ''github''"
    and "\<not> validate_token (session ''token'')"
  shows "check_token_revocation validate_token (session, calls)
           = (Inl (HTTPException HTTP_401_UNAUTHORIZED), logout session,
              calls @ [session ''token''])
       \<and> me validate_token x_api_key d (session, calls)
           = (Inl (HTTPException HTTP_401_UNAUTHORIZED), logout session,
              calls @ [session ''token''])
       \<and> logout session ''user_id'' = None
       \<and> logout session ''identity_provider'' = None
       \<and> logout session ''token'' = None"
  using assms by (simp add: me_def check_token_revocation_def logout_apply)

theorem revoked_github_session_is_logged_out_witness:
  "github_session ''identity_provider'' = Some ''github''
   \<and> github_session ''user_id'' = Some ''u-alice''
   \<and> me (\<lambda>_. False) None example_db (github_session, [])
       = (Inl (HTTPException HTTP_401_UNAUTHORIZED), logout github_session,
          [Some ''gho_revoked''])
   \<and> logout github_session ''user_id'' = None"
proof -
  have h1: "github_session ''identity_provider'' = Some ''github''"
    by (simp add: github_session_def)
  have h2: "\<not> (\<lambda>_. False) (github_session ''token'')" by simp
  show ?thesis
    using revoked_github_session_is_logged_out
      [where session = github_session and validate_token = "\<lambda>_. False"
         and x_api_key = None and d = example_db and calls = "[]"] h1 h2
    by (simp add: github_session_def)
qed

section \<open>Uploads\<close>

lemma upload_files_append:
  "upload_files auth p dir sys (xs @ ys) w =
     (case upload_files auth p dir sys xs w of
        (Inl e, w') \<Rightarrow> (Inl e, w')
      | (Inr u, w') \<Rightarrow> upload_files auth p dir sys ys w')"
  by (induction xs arbitrary: w) (auto split: prod.splits sum.splits)

lemma get_package_or_fail_names:
  assumes "get_package_or_fail d cname pname = Inr p"
  shows "package_channel_name p = cname \<and> package_name p = pname"
proof -
  from assms obtain c where c: "get_channel d cname = Some c"
    and p: "get_package d (channel_name c) pname = Some p"
    by (auto simp: get_package_or_fail_def get_channel_or_fail_def
        split: option.splits sum.splits)
  from c have "channel_name c = cname"
    by (auto simp: get_channel_def find_Some_iff)
  with p show ?thesis
    by (auto simp: get_package_def find_Some_iff)
qed


lemma resolve_api_key_api_keys:
  "api_keys d = api_keys d0 \<Longrightarrow> resolve_api_key d k = resolve_api_key d0 k"
  by (simp add: resolve_api_key_def)

lemma assert_user_api_keys:
  "api_keys d = api_keys d0 \<Longrightarrow> assert_user auth d = assert_user auth d0"
  using resolve_api_key_api_keys [of d d0]
  by (cases "API_key auth") (simp_all add: assert_user_def resolve_principal_def)

lemma upload_one_rejects_mismatch:
  assumes "read_index file = Inr info"
    and "takeWhile (\<lambda>c. c \<noteq> CHR ''-'') (upload_filename file) \<noteq> package_name p
         \<or> (\<exists>v. getitem info ''name'' = Inr v \<and> v \<noteq> JStr (package_name p))"
  shows "upload_one auth p dir sys file w = (Inl (HTTPException HTTP_400_BAD_REQUEST), w)"
  using assms by (auto simp: upload_one_def)

lemma upload_one_unreadable:
  assumes "read_index file = Inl e"
  shows "upload_one auth p dir sys file w = (Inl (Uncaught e), w)"
  using assms by (simp add: upload_one_def)

lemma post_file_aborts_at:
  assumes "get_package_or_fail (world_db w) cname pname = Inr p"
    and "assert_upload_file auth (world_db w) (package_channel_name p) (package_name p) = Inr u"
    and "upload_files auth p (''static/channels/'' @ package_channel_name p) sys before w
           = (Inr (), w1)"
    and "upload_one auth p (''static/channels/'' @ package_channel_name p) sys file w1
           = (Inl e, w2)"
  shows "post_file cname pname (before @ file # after) sys conda_index auth w = (Inl e, w2)"
  using assms by (simp add: post_file_def upload_files_append)

lemma upload_one_effect:
  assumes "upload_one auth p dir sys file w = (r, w')"
  shows "world_subprocess w' = world_subprocess w
       \<and> api_keys (world_db w') = api_keys (world_db w)
       \<and> (case r of
             Inl e \<Rightarrow> versions (world_db w') = versions (world_db w)
           | Inr x \<Rightarrow> \<exists>row. versions (world_db w') = versions (world_db w) @ [row]
                          \<and> version_filename row = upload_filename file)"
  using assms
  by (auto simp: upload_one_def Let_def create_version_def
      split: sum.splits if_splits prod.splits option.splits)

lemma upload_files_recorded:
  assumes "upload_files auth p dir sys files w = (Inr (), w1)"
  shows "world_subprocess w1 = world_subprocess w
       \<and> api_keys (world_db w1) = api_keys (world_db w)
       \<and> (\<exists>new. versions (world_db w1) = versions (world_db w) @ new
              \<and> map version_filename new = map upload_filename files)"
  using assms
proof (induction files arbitrary: w)
  case Nil
  then show ?case by simp
next
  case (Cons f fs)
  obtain r0 w0 where one: "upload_one auth p dir sys f w = (r0, w0)"
    by (cases "upload_one auth p dir sys f w")
  with Cons.prems have r0: "r0 = Inr ()" and rest: "upload_files auth p dir sys fs w0 = (Inr (), w1)"
    by (auto split: sum.splits)
  from upload_one_effect [OF one] r0 obtain row where
    e: "world_subprocess w0 = world_subprocess w"
       "api_keys (world_db w0) = api_keys (world_db w)"
       "versions (world_db w0) = versions (world_db w) @ [row]"
       "version_filename row = upload_filename f"
    by auto
  from Cons.IH [OF rest] obtain new where
    n: "world_subprocess w1 = world_subprocess w0"
       "api_keys (world_db w1) = api_keys (world_db w0)"
       "versions (world_db w1) = versions (world_db w0) @ new"
       "map version_filename new = map upload_filename fs"
    by auto
  have "versions (world_db w1) = versions (world_db w) @ (row # new)"
    using e(3) n(3) by simp
  moreover have "map version_filename (row # new) = map upload_filename (f # fs)"
    using e(4) n(4) by simp
  moreover have "world_subprocess w1 = world_subprocess w"
    using e(1) n(1) by simp
  moreover have "api_keys (world_db w1) = api_keys (world_db w)"
    using e(2) n(2) by simp
  ultimately show ?case by (intro conjI exI [of _ "row # new"])
qed

lemma upload_files_aborted:
  assumes "upload_files auth p dir sys files w = (Inl e, w2)"
  shows "\<exists>before f after w1. files = before @ f # after
           \<and> upload_files auth p dir sys before w = (Inr (), w1)
           \<and> upload_one auth p dir sys f w1 = (Inl e, w2)"
  using assms
proof (induction files arbitrary: w)
  case Nil
  then show ?case by simp
next
  case (Cons f fs)
  obtain r0 w0 where one: "upload_one auth p dir sys f w = (r0, w0)"
    by (cases "upload_one auth p dir sys f w")
  show ?case
  proof (cases r0)
    case (Inl e0)
    with one Cons.prems have "upload_one auth p dir sys f w = (Inl e, w2)" by auto
    then have "f # fs = [] @ f # fs \<and> upload_files auth p dir sys [] w = (Inr (), w)
        \<and> upload_one auth p dir sys f w = (Inl e, w2)"
      by simp
    then show ?thesis by blast
  next
    case (Inr x)
    with one Cons.prems have "upload_files auth p dir sys fs w0 = (Inl e, w2)" by auto
    from Cons.IH [OF this] obtain before g after w1 where
      b: "fs = before @ g # after" "upload_files auth p dir sys before w0 = (Inr (), w1)"
         "upload_one auth p dir sys g w1 = (Inl e, w2)"
      by blast
    have "f # fs = (f # before) @ g # after" using b(1) by simp
    moreover have "upload_files auth p dir sys (f # before) w = (Inr (), w1)"
      using one Inr b(2) by simp
    ultimately show ?thesis using b(3) by blast
  qed
qed

subsection \<open>The endpoints on the small installation\<close>

lemmas example_defs = example_world_def example_db_def alice_session_def numpy_upload_def
  numpy_info_def misnamed_upload_def corrupt_upload_def get_rules_def

lemmas auth_defs = assert_user_def resolve_principal_def resolve_session_def
  assert_upload_file_def assert_create_api_key_roles_def user_rank_def package_rank_def
  channel_rank_def

lemmas eval_defs = post_file_def upload_one_def read_index_def create_version_def
  same_version_key_def get_package_or_fail_def get_channel_or_fail_def get_channel_def
  get_package_def

lemma example_package:
  "get_package_or_fail (world_db example_world) ''main'' ''numpy''
     = Inr \<lparr>package_channel_name = ''main'', package_name = ''numpy'', package_description = []\<rparr>"
  by (simp add: get_package_or_fail_def get_channel_or_fail_def get_channel_def
      get_package_def example_world_def example_db_def)

lemma alice_may_upload:
  "assert_upload_file (get_rules None alice_session) (world_db example_world) ''main'' ''numpy''
     = Inr ''u-alice''"
  by (simp add: auth_defs example_defs)

lemma segments_linux_64:
  "segments ''static/channels/main/linux-64/'' = [''static'', ''channels'', ''main'', ''linux-64'']"
  by (simp add: segments_def)

lemma segments_numpy_path:
  "segments ''static/channels/main/linux-64//numpy-1.0-py_0.tar.bz2''
     = [''static'', ''channels'', ''main'', ''linux-64'', ''numpy-1.0-py_0.tar.bz2'']"
  by (simp add: segments_def)

lemma example_os_numpy:
  "os_makedirs example_os fs ds ''static/channels/main/linux-64/'' = None"
  "os_open example_os fs (insert ''static/channels/main/linux-64/'' ds)
     ''static/channels/main/linux-64//numpy-1.0-py_0.tar.bz2'' = None"
  "os_copy example_os fs ds pa co = None"
  by (simp_all add: example_os_def segments_linux_64 segments_numpy_path image_iff)

lemma first_upload_world:
  "first_upload = (Inr Null, example_world
      \<lparr>world_dirs := {''static/channels/main/linux-64/''},
       world_files := [numpy_path \<mapsto> ''AAAA''],
       world_db := example_db\<lparr>versions :=
         [\<lparr>version_channel_name = ''main'', version_package_name = ''numpy'',
           version_platform = JStr ''linux-64'', version_version = JStr ''1.0'',
           version_build_number = JInt 0, version_build_string = JStr ''py_0'',
           version_filename = ''numpy-1.0-py_0.tar.bz2'', version_info = numpy_info,
           version_uploader_id = ''u-alice''\<rparr>]\<rparr>,
       world_subprocess := [([''conda'', ''index'', ''static/channels/main''], Inr 1)]\<rparr>)"
  by (simp add: first_upload_def eval_defs auth_defs example_defs numpy_path_def
      example_os_numpy)

text \<open>
  On the example operating system a file name with a \<open>/\<close> passes the prefix check and
  then fails in \<open>open\<close>, before anything is written or recorded.
\<close>

lemma nested_file_name_is_not_written:
  "takeWhile (\<lambda>c. c \<noteq> CHR ''-'') (upload_filename nested_upload) = ''numpy''
   \<and> post_file ''main'' ''numpy'' [nested_upload] example_os (Inr 0)
        (get_rules None alice_session) (snd first_upload)
      = (Inl (Uncaught FileNotFoundError), snd first_upload)"
  by (simp add: first_upload_world eval_defs auth_defs example_defs nested_upload_def
      example_os_def segments_def image_iff)

subsection \<open>Name checks\<close>

text \<open>
  C2, as the claim states it, fails: the names are compared only after the archive has
  been read. A file named for another package whose bytes are not a bzip2 tar ends the
  request with the uncaught ReadError of \<open>tarfile.open\<close>, not with 400.
\<close>

theorem misnamed_unreadable_upload_is_not_bad_request:
  "takeWhile (\<lambda>c. c \<noteq> CHR ''-'') (upload_filename (corrupt_upload ''scipy-1.0-py_0.tar.bz2''))
     = ''scipy''
   \<and> post_file ''main'' ''numpy'' [corrupt_upload ''scipy-1.0-py_0.tar.bz2''] example_os (Inr 0)
        (get_rules None alice_session) example_world
      = (Inl (Uncaught ReadError), example_world)"
  by (simp add: post_file_def example_package alice_may_upload upload_one_def read_index_def
      corrupt_upload_def)

text \<open>
  C2, amended. For a file that \<open>post_file\<close> gets to process (the package exists, the
  caller may upload, the files before it in the batch were recorded) and whose
  \<open>info/index.json\<close> was read: if the file name up to its first \<open>-\<close> differs from the
  package name, or the metadata's \<open>name\<close> differs from it, the request ends with 400 and
  the state is the one the earlier files left: no row, no file and no directory for
  this file, no later file processed, no index run.
\<close>

theorem misnamed_upload_is_rejected:
  assumes "get_package_or_fail (world_db w) cname pname = Inr p"
    and "assert_upload_file auth (world_db w) (package_channel_name p) (package_name p) = Inr u"
    and "upload_files auth p (''static/channels/'' @ package_channel_name p) sys before w
           = (Inr (), w1)"
    and "read_index file = Inr info"
    and "takeWhile (\<lambda>c. c \<noteq> CHR ''-'') (upload_filename file) \<noteq> package_name p
         \<or> (\<exists>v. getitem info ''name'' = Inr v \<and> v \<noteq> JStr (package_name p))"
  shows "post_file cname pname (before @ file # after) sys conda_index auth w
           = (Inl (HTTPException HTTP_400_BAD_REQUEST), w1)"
  using assms(1-3) upload_one_rejects_mismatch [OF assms(4,5)]
  by (rule post_file_aborts_at)

theorem misnamed_upload_is_rejected_witness:
  "read_index misnamed_upload = Inr numpy_info
   \<and> takeWhile (\<lambda>c. c \<noteq> CHR ''-'') (upload_filename misnamed_upload) = ''scipy''
   \<and> post_file ''main'' ''numpy'' [misnamed_upload, numpy_upload ''AAAA''] example_os (Inr 0)
        (get_rules None alice_session) example_world
      = (Inl (HTTPException HTTP_400_BAD_REQUEST), example_world)"
proof -
  let ?p = "\<lparr>package_channel_name = ''main'', package_name = ''numpy'',
             package_description = []\<rparr>"
  have r: "read_index misnamed_upload = Inr numpy_info"
    by (simp add: read_index_def misnamed_upload_def)
  have m: "takeWhile (\<lambda>c. c \<noteq> CHR ''-'') (upload_filename misnamed_upload) = ''scipy''"
    by (simp add: misnamed_upload_def)
  have a: "assert_upload_file (get_rules None alice_session) (world_db example_world)
             (package_channel_name ?p) (package_name ?p) = Inr ''u-alice''"
    using alice_may_upload by simp
  have b: "upload_files (get_rules None alice_session) ?p
             (''static/channels/'' @ package_channel_name ?p) example_os [] example_world
           = (Inr (), example_world)"
    by simp
  have h: "takeWhile (\<lambda>c. c \<noteq> CHR ''-'') (upload_filename misnamed_upload) \<noteq> package_name ?p
           \<or> (\<exists>v. getitem numpy_info ''name'' = Inr v \<and> v \<noteq> JStr (package_name ?p))"
    using m by simp
  from misnamed_upload_is_rejected [OF example_package a b r h,
      of "[numpy_upload ''AAAA'']" "Inr 0"]
  show ?thesis using r m by simp
qed

subsection \<open>Unreadable archives\<close>

text \<open>
  C5, as the claim states it, fails: nothing in \<open>post_file\<close> catches what
  \<open>tarfile.open\<close>, \<open>extractfile\<close> and \<open>json.load\<close> raise. For bytes that are not a bzip2
  tar the request ends with the uncaught ReadError, which is no HTTPException and
  carries no validation status.
\<close>

theorem unreadable_upload_is_uncaught_exception:
  "post_file ''main'' ''numpy'' [corrupt_upload ''numpy-1.0-py_0.tar.bz2''] example_os (Inr 0)
        (get_rules None alice_session) example_world
      = (Inl (Uncaught ReadError), example_world)"
  by (simp add: post_file_def example_package alice_may_upload upload_one_def read_index_def
      corrupt_upload_def)

text \<open>
  C5, amended. For a file that \<open>post_file\<close> gets to process and whose archive cannot
  be opened or scanned as a bzip2 tar, has no member \<open>info/index.json\<close>, or has a member
  there that cannot be read and parsed as JSON: the request ends with the exception
  that the library raised, whichever it is, uncaught; it is not an HTTPException, so no
  validation status is reported. The state is the one the earlier files left: nothing
  is persisted for this file and no later file is processed.
\<close>

theorem unreadable_upload_aborts:
  assumes "get_package_or_fail (world_db w) cname pname = Inr p"
    and "assert_upload_file auth (world_db w) (package_channel_name p) (package_name p) = Inr u"
    and "upload_files auth p (''static/channels/'' @ package_channel_name p) sys before w
           = (Inr (), w1)"
    and "(\<exists>e. upload_archive file = Unreadable e)
         \<or> (\<exists>ms. upload_archive file = TarBz2 ms
                \<and> (map_of (rev ms) ''info/index.json'' = None
                    \<or> (\<exists>e. map_of (rev ms) ''info/index.json'' = Some (Undecodable e))))"
  shows "\<exists>e. read_index file = Inl e
           \<and> post_file cname pname (before @ file # after) sys conda_index auth w
               = (Inl (Uncaught e), w1)
           \<and> (\<forall>c. Uncaught e \<noteq> HTTPException c)"
proof -
  from assms(4) obtain e where r: "read_index file = Inl e"
    by (auto simp: read_index_def)
  from r have "upload_one auth p (''static/channels/'' @ package_channel_name p) sys file w1
                 = (Inl (Uncaught e), w1)"
    by (rule upload_one_unreadable)
  with assms(1-3)
  have "post_file cname pname (before @ file # after) sys conda_index auth w
          = (Inl (Uncaught e), w1)"
    by (rule post_file_aborts_at)
  with r show ?thesis by blast
qed

theorem unreadable_upload_aborts_witness:
  "upload_archive invalid_json_upload
     = TarBz2 [(''info/index.json'', Undecodable UnicodeDecodeError)]
   \<and> post_file ''main'' ''numpy'' [numpy_upload ''AAAA'', invalid_json_upload] example_os
        (Inr 0) (get_rules None alice_session) example_world
      = (Inl (Uncaught UnicodeDecodeError), (snd first_upload)\<lparr>world_subprocess := []\<rparr>)"
proof -
  let ?p = "\<lparr>package_channel_name = ''main'', package_name = ''numpy'',
             package_description = []\<rparr>"
  let ?w1 = "(snd first_upload)\<lparr>world_subprocess := []\<rparr>"
  have a: "assert_upload_file (get_rules None alice_session) (world_db example_world)
             (package_channel_name ?p) (package_name ?p) = Inr ''u-alice''"
    using alice_may_upload by simp
  have b: "upload_files (get_rules None alice_session) ?p
             (''static/channels/'' @ package_channel_name ?p) example_os
             [numpy_upload ''AAAA''] example_world = (Inr (), ?w1)"
    by (simp add: first_upload_world eval_defs auth_defs example_defs numpy_path_def
        example_os_numpy)
  have ar: "upload_archive invalid_json_upload
              = TarBz2 [(''info/index.json'', Undecodable UnicodeDecodeError)]"
    by (simp add: invalid_json_upload_def)
  then have h: "(\<exists>e. upload_archive invalid_json_upload = Unreadable e)
         \<or> (\<exists>ms. upload_archive invalid_json_upload = TarBz2 ms
                \<and> (map_of (rev ms) ''info/index.json'' = None
                    \<or> (\<exists>e. map_of (rev ms) ''info/index.json'' = Some (Undecodable e))))"
    by simp
  have ri: "read_index invalid_json_upload = Inl UnicodeDecodeError"
    by (simp add: read_index_def invalid_json_upload_def)
  from unreadable_upload_aborts [OF example_package a b h, of "[]" "Inr 0"] ri ar
  show ?thesis by auto
qed

subsection \<open>Uploading a recorded version again\<close>




subsection \<open>Index regeneration\<close>

text \<open>
  C4, as the claim states it, fails: \<open>subprocess.run\<close> stands after the loop, and an
  exception in the loop leaves the function before it. In a batch of a good file and an
  unreadable one the first version is recorded and \<open>conda index\<close> is never run.
\<close>

theorem aborted_batch_is_not_indexed:
  "fst (post_file ''main'' ''numpy''
          [numpy_upload ''AAAA'', corrupt_upload ''numpy-2.0-py_0.tar.bz2''] example_os (Inr 0)
          (get_rules None alice_session) example_world) = Inl (Uncaught ReadError)
   \<and> map version_filename (versions (world_db (snd (post_file ''main'' ''numpy''
          [numpy_upload ''AAAA'', corrupt_upload ''numpy-2.0-py_0.tar.bz2''] example_os (Inr 0)
          (get_rules None alice_session) example_world)))) = [''numpy-1.0-py_0.tar.bz2'']
   \<and> world_subprocess (snd (post_file ''main'' ''numpy''
          [numpy_upload ''AAAA'', corrupt_upload ''numpy-2.0-py_0.tar.bz2''] example_os (Inr 0)
          (get_rules None alice_session) example_world)) = []"
  by (simp add: eval_defs auth_defs example_defs example_os_numpy)

text \<open>
  C4, amended. For a request that reaches the loop (the package exists, the caller may
  upload). When every file is recorded, \<open>subprocess.run\<close> is called exactly once, after
  the loop, on \<open>static/channels/<channel>\<close>; the rows then are the old rows followed by
  one row per file, in order, whatever the outcome of the run: a non-zero exit status
  is not looked at and the response is success, an exception of the call ends the
  request with that exception. When a file aborts the batch, the request ends with that
  file's exception in the state the loop left: \<open>subprocess.run\<close> is not called, and the
  rows are the old rows followed by one row for each file before the failing one, so
  nothing recorded before or during the request is rolled back.
\<close>

theorem index_regenerated_only_after_whole_batch:
  assumes "get_package_or_fail (world_db w) cname pname = Inr p"
    and "assert_upload_file auth (world_db w) (package_channel_name p) (package_name p) = Inr u"
  shows "case upload_files auth p (''static/channels/'' @ cname) sys files w of
           (Inr x, w1) \<Rightarrow>
             post_file cname pname files sys conda_index auth w
               = (case conda_index of Inl e \<Rightarrow> Inl (Uncaught e) | Inr status \<Rightarrow> Inr Null,
                  w1\<lparr>world_subprocess := world_subprocess w
                        @ [([''conda'', ''index'', ''static/channels/'' @ cname], conda_index)]\<rparr>)
             \<and> (\<exists>new. versions (world_db w1) = versions (world_db w) @ new
                    \<and> map version_filename new = map upload_filename files)
         | (Inl e, w2) \<Rightarrow>
             post_file cname pname files sys conda_index auth w = (Inl e, w2)
             \<and> world_subprocess w2 = world_subprocess w
             \<and> (\<exists>before f after w1 new. files = before @ f # after
                    \<and> upload_files auth p (''static/channels/'' @ cname) sys before w
                         = (Inr (), w1)
                    \<and> upload_one auth p (''static/channels/'' @ cname) sys f w1 = (Inl e, w2)
                    \<and> versions (world_db w2) = versions (world_db w) @ new
                    \<and> map version_filename new = map upload_filename before)"
proof -
  let ?dir = "''static/channels/'' @ cname"
  from get_package_or_fail_names [OF assms(1)] have cn: "package_channel_name p = cname"
    by simp
  obtain r1 w1 where loop: "upload_files auth p ?dir sys files w = (r1, w1)"
    by (cases "upload_files auth p ?dir sys files w")
  show ?thesis
  proof (cases r1)
    case (Inr x)
    then have l: "upload_files auth p ?dir sys files w = (Inr (), w1)" using loop by simp
    from upload_files_recorded [OF l] obtain new where
      n: "world_subprocess w1 = world_subprocess w"
         "versions (world_db w1) = versions (world_db w) @ new"
         "map version_filename new = map upload_filename files"
      by auto
    have "post_file cname pname files sys conda_index auth w
            = (case conda_index of Inl e \<Rightarrow> Inl (Uncaught e) | Inr status \<Rightarrow> Inr Null,
               w1\<lparr>world_subprocess := world_subprocess w
                     @ [([''conda'', ''index'', ?dir], conda_index)]\<rparr>)"
      using assms cn l n(1) by (simp add: post_file_def split: sum.splits)
    with n(2,3) l show ?thesis by auto
  next
    case (Inl e)
    then have l: "upload_files auth p ?dir sys files w = (Inl e, w1)" using loop by simp
    from upload_files_aborted [OF l] obtain before f after w0 where
      b: "files = before @ f # after" "upload_files auth p ?dir sys before w = (Inr (), w0)"
         "upload_one auth p ?dir sys f w0 = (Inl e, w1)"
      by blast
    from upload_files_recorded [OF b(2)] obtain new where
      n: "world_subprocess w0 = world_subprocess w"
         "versions (world_db w0) = versions (world_db w) @ new"
         "map version_filename new = map upload_filename before"
      by auto
    from upload_one_effect [OF b(3)] have
      o: "world_subprocess w1 = world_subprocess w0"
         "versions (world_db w1) = versions (world_db w0)"
      by auto
    have pf: "post_file cname pname files sys conda_index auth w = (Inl e, w1)"
      using assms cn l by (simp add: post_file_def)
    have "\<exists>before f after w0 new. files = before @ f # after
            \<and> upload_files auth p ?dir sys before w = (Inr (), w0)
            \<and> upload_one auth p ?dir sys f w0 = (Inl e, w1)
            \<and> versions (world_db w1) = versions (world_db w) @ new
            \<and> map version_filename new = map upload_filename before"
      using b n(2,3) o(2) by (intro exI [of _ before] exI [of _ f] exI [of _ after]
          exI [of _ w0] exI [of _ new]) simp
    with pf o(1) n(1) l show ?thesis by simp
  qed
qed

theorem index_regenerated_only_after_whole_batch_witness:
  "post_file ''main'' ''numpy''
      [numpy_upload ''AAAA'', corrupt_upload ''numpy-2.0-py_0.tar.bz2''] example_os (Inr 0)
      (get_rules None alice_session) example_world
     = (Inl (Uncaught ReadError), (snd first_upload)\<lparr>world_subprocess := []\<rparr>)
   \<and> map version_filename
         (versions (world_db ((snd first_upload)\<lparr>world_subprocess := []\<rparr>)))
       = [''numpy-1.0-py_0.tar.bz2'']
   \<and> versions (world_db example_world) = []
   \<and> post_file ''main'' ''numpy'' [numpy_upload ''AAAA''] example_os (Inr 1)
        (get_rules None alice_session) example_world
       = (Inr Null,
          (snd first_upload)\<lparr>world_subprocess :=
             [([''conda'', ''index'', ''static/channels/main''], Inr 1)]\<rparr>)"
proof -
  let ?p = "\<lparr>package_channel_name = ''main'', package_name = ''numpy'',
             package_description = []\<rparr>"
  let ?auth = "get_rules None alice_session"
  let ?w1 = "(snd first_upload)\<lparr>world_subprocess := []\<rparr>"
  have au: "assert_upload_file ?auth (world_db example_world)
              (package_channel_name ?p) (package_name ?p) = Inr ''u-alice''"
    using alice_may_upload by simp
  have good: "upload_files ?auth ?p (''static/channels/'' @ ''main'') example_os
             [numpy_upload ''AAAA''] example_world = (Inr (), ?w1)"
    by (simp add: first_upload_world eval_defs auth_defs example_defs numpy_path_def
        example_os_numpy)
  have bad: "upload_files ?auth ?p (''static/channels/'' @ ''main'') example_os
             [numpy_upload ''AAAA'', corrupt_upload ''numpy-2.0-py_0.tar.bz2''] example_world
           = (Inl (Uncaught ReadError), ?w1)"
    by (simp add: first_upload_world eval_defs auth_defs example_defs numpy_path_def
        example_os_numpy)
  have v: "map version_filename (versions (world_db ?w1)) = [''numpy-1.0-py_0.tar.bz2'']"
    "versions (world_db example_world) = []"
    by (simp_all add: first_upload_world example_world_def example_db_def)
  from index_regenerated_only_after_whole_batch [OF example_package au,
      where sys = example_os and conda_index = "Inr 0"
        and files = "[numpy_upload ''AAAA'', corrupt_upload ''numpy-2.0-py_0.tar.bz2'']"]
    bad
  have a: "post_file ''main'' ''numpy''
      [numpy_upload ''AAAA'', corrupt_upload ''numpy-2.0-py_0.tar.bz2''] example_os (Inr 0)
      ?auth example_world = (Inl (Uncaught ReadError), ?w1)"
    by simp
  from index_regenerated_only_after_whole_batch [OF example_package au,
      where sys = example_os and conda_index = "Inr 1" and files = "[numpy_upload ''AAAA'']"]
    good
  have b: "post_file ''main'' ''numpy'' [numpy_upload ''AAAA''] example_os (Inr 1)
        ?auth example_world
       = (Inr Null,
          ?w1\<lparr>world_subprocess := world_subprocess example_world
             @ [([''conda'', ''index'', ''static/channels/'' @ ''main''], Inr 1)]\<rparr>)"
    by simp
  from a b v show ?thesis by (simp add: example_world_def)
qed

section \<open>API keys\<close>

lemma find_append_Some:
  "find P xs = Some a \<Longrightarrow> find P (xs @ ys) = Some a"
  by (induction xs) (auto split: if_splits)

lemma assert_user_create_api_key:
  assumes "assert_user auth d = Inr uid"
  shows "assert_user auth (create_api_key d u b k) = Inr uid"
  using assms
  by (auto simp: assert_user_def resolve_principal_def resolve_api_key_def create_api_key_def
      find_append_Some split: option.splits if_splits)

lemma group_step_keys: "fst ` set (group_step f x gs) = insert (f x) (fst ` set gs)"
  by (cases gs) (auto split: if_splits)

lemma groupby_keys: "fst ` set (groupby f xs) = f ` set xs"
  by (induction xs) (simp_all add: groupby_def group_step_keys)

lemma rest_keys_of_groups:
  "map rest_key (map (\<lambda>(a, member_key_list).
                    \<lparr>rest_key = api_key_key a,
                     rest_description = api_key_description a,
                     rest_roles = map fst member_key_list\<rparr>) gs)
     = map (\<lambda>g. api_key_key (fst g)) gs"
  by (simp add: case_prod_beta)

lemma dao_get_api_keys_keys:
  "snd ` set (dao_get_api_keys d uid)
      = {a \<in> set (api_keys d). api_key_owner a = uid \<and> api_key_roles a \<noteq> []}"
proof (rule set_eqI)
  fix a
  have "a \<in> snd ` set (dao_get_api_keys d uid)
      \<longleftrightarrow> (\<exists>m. (m, a) \<in> set (dao_get_api_keys d uid))"
    by force
  also have "\<dots> \<longleftrightarrow> (\<exists>m. a \<in> set (api_keys d) \<and> api_key_owner a = uid
                            \<and> m \<in> set (api_key_roles a))"
    by (auto simp: dao_get_api_keys_def)
  also have "\<dots> \<longleftrightarrow> a \<in> {a \<in> set (api_keys d). api_key_owner a = uid \<and> api_key_roles a \<noteq> []}"
    by (cases "api_key_roles a") auto
  finally show "a \<in> snd ` set (dao_get_api_keys d uid)
      \<longleftrightarrow> a \<in> {a \<in> set (api_keys d). api_key_owner a = uid \<and> api_key_roles a \<noteq> []}" .
qed

lemma get_api_keys_secrets:
  assumes "assert_user auth d = Inr uid"
  shows "\<exists>ks. get_api_keys auth d = Inr (ApiKeys ks)
           \<and> set (map rest_key ks)
               = api_key_key ` {a \<in> set (api_keys d). api_key_owner a = uid \<and> api_key_roles a \<noteq> []}"
proof -
  let ?rows = "dao_get_api_keys d uid"
  let ?ks = "map (\<lambda>(a, member_key_list).
                    \<lparr>rest_key = api_key_key a,
                     rest_description = api_key_description a,
                     rest_roles = map fst member_key_list\<rparr>)
                 (groupby snd ?rows)"
  have g: "get_api_keys auth d = Inr (ApiKeys ?ks)"
    using assms by (simp add: get_api_keys_def)
  have "set (map rest_key ?ks) = api_key_key ` fst ` set (groupby snd ?rows)"
    unfolding rest_keys_of_groups by (simp add: image_image)
  also have "\<dots> = api_key_key ` snd ` set ?rows"
    by (simp only: groupby_keys)
  finally have "set (map rest_key ?ks)
      = api_key_key ` {a \<in> set (api_keys d). api_key_owner a = uid \<and> api_key_roles a \<noteq> []}"
    by (simp only: dao_get_api_keys_keys)
  with g show ?thesis by blast
qed

text \<open>
  C3, as the claim states it, fails: \<open>post_api_key\<close> has no \<open>return\<close>, so the response
  body of a successful POST /api-keys is \<open>null\<close> and holds no secret; the secret is in
  the database and comes back with GET /api-keys.
\<close>

theorem created_key_is_not_in_response:
  "post_api_key example_key_request ''s3cr3t'' (get_rules None alice_session) example_db
     = (Inr Null, create_api_key example_db ''u-alice'' example_key_request ''s3cr3t'')
   \<and> secrets_in Null = []
   \<and> get_api_keys (get_rules None alice_session)
        (create_api_key example_db ''u-alice'' example_key_request ''s3cr3t'')
      = Inr (ApiKeys [\<lparr>rest_key = ''s3cr3t'', rest_description = ''ci'',
                       rest_roles = base_roles example_key_request\<rparr>])"
  by (simp add: post_api_key_def get_api_keys_def dao_get_api_keys_def groupby_def
      create_api_key_def auth_defs example_defs example_key_request_def)

text \<open>
  C3, amended. A successful POST /api-keys answers \<open>null\<close>: the response carries no
  secret. The generated secret is stored as a key of the caller with the requested
  description and scoping tuples, and, when the key has at least one scoping tuple, a
  GET /api-keys of the same caller afterwards lists it.
\<close>

theorem created_key_only_in_listing:
  assumes "post_api_key b key auth d = (Inr resp, d')"
  shows "resp = Null \<and> secrets_in resp = []
       \<and> (\<exists>uid. assert_user auth d = Inr uid
             \<and> api_keys d' = api_keys d
                 @ [\<lparr>api_key_key = key, api_key_description = base_description b,
                     api_key_owner = uid, api_key_roles = base_roles b\<rparr>])
       \<and> (base_roles b \<noteq> [] \<longrightarrow>
            (\<exists>ks. get_api_keys auth d' = Inr (ApiKeys ks) \<and> key \<in> set (secrets_in (ApiKeys ks))))"
proof -
  from assms obtain uid where u: "assert_user auth d = Inr uid"
    and r: "resp = Null" and d': "d' = create_api_key d uid b key"
    by (auto simp: post_api_key_def split: sum.splits)
  have stored: "api_keys d' = api_keys d
                 @ [\<lparr>api_key_key = key, api_key_description = base_description b,
                     api_key_owner = uid, api_key_roles = base_roles b\<rparr>]"
    by (simp add: d' create_api_key_def)
  have u': "assert_user auth d' = Inr uid"
    unfolding d' using u by (rule assert_user_create_api_key)
  from get_api_keys_secrets [OF u'] obtain ks where
    ks: "get_api_keys auth d' = Inr (ApiKeys ks)"
      "set (map rest_key ks)
         = api_key_key ` {a \<in> set (api_keys d'). api_key_owner a = uid \<and> api_key_roles a \<noteq> []}"
    by blast
  have "base_roles b \<noteq> [] \<longrightarrow> key \<in> set (secrets_in (ApiKeys ks))"
    using ks(2) stored by (auto simp: image_iff)
  with ks(1) r u stored show ?thesis by auto
qed

theorem created_key_only_in_listing_witness:
  "post_api_key example_key_request ''s3cr3t'' (get_rules None alice_session) example_db
     = (Inr Null, create_api_key example_db ''u-alice'' example_key_request ''s3cr3t'')
   \<and> base_roles example_key_request \<noteq> []
   \<and> (\<exists>ks. get_api_keys (get_rules None alice_session)
               (create_api_key example_db ''u-alice'' example_key_request ''s3cr3t'')
             = Inr (ApiKeys ks) \<and> ''s3cr3t'' \<in> set (secrets_in (ApiKeys ks)))"
proof -
  have p: "post_api_key example_key_request ''s3cr3t'' (get_rules None alice_session) example_db
     = (Inr Null, create_api_key example_db ''u-alice'' example_key_request ''s3cr3t'')"
    by (simp add: post_api_key_def auth_defs example_defs example_key_request_def)
  have n: "base_roles example_key_request \<noteq> []"
    by (simp add: example_key_request_def)
  from created_key_only_in_listing [OF p] n p show ?thesis by blast
qed

section \<open>Creating channels and packages\<close>

lemma find_append_None:
  "find P xs = None \<Longrightarrow> find P (xs @ ys) = find P ys"
  by (induction xs) (auto split: if_splits)

text \<open>
  C9. When \<open>post_channel\<close> succeeds, the new channel is in the database and the
  authenticated caller is recorded as a member of it with the role OWNER; when
  \<open>post_package\<close> succeeds, the same holds of the new package in its channel.
\<close>

theorem creator_is_owner:
  "(post_channel new_channel auth d = (Inr (), d') \<longrightarrow>
      (\<exists>uid. assert_user auth d = Inr uid
         \<and> get_channel d' (channel_name new_channel) = Some new_channel
         \<and> (channel_name new_channel, uid, OWNER) \<in> set (channel_members d')))
   \<and> (post_package cname np auth d = (Inr (), d'') \<longrightarrow>
      (\<exists>uid. assert_user auth d = Inr uid
         \<and> get_package d'' cname (new_package_name np)
             = Some \<lparr>package_channel_name = cname, package_name = new_package_name np,
                      package_description = new_package_description np\<rparr>
         \<and> (cname, new_package_name np, uid, OWNER) \<in> set (package_members d'')))"
proof (intro conjI impI)
  assume a: "post_channel new_channel auth d = (Inr (), d')"
  then obtain uid where u: "assert_user auth d = Inr uid"
    and none: "get_channel d (channel_name new_channel) = None"
    and d': "d' = d\<lparr>channels := channels d @ [new_channel],
                     channel_members := channel_members d
                        @ [(channel_name new_channel, uid, OWNER)]\<rparr>"
    by (auto simp: post_channel_def create_channel_def split: sum.splits option.splits)
  from none have "get_channel d' (channel_name new_channel) = Some new_channel"
    by (simp add: d' get_channel_def find_append_None)
  with u d' show "\<exists>uid. assert_user auth d = Inr uid
         \<and> get_channel d' (channel_name new_channel) = Some new_channel
         \<and> (channel_name new_channel, uid, OWNER) \<in> set (channel_members d')"
    by simp
next
  assume a: "post_package cname np auth d = (Inr (), d'')"
  then obtain c where c: "get_channel d cname = Some c"
    by (auto simp: post_package_def get_channel_or_fail_def split: sum.splits option.splits)
  then have cn: "channel_name c = cname"
    by (auto simp: get_channel_def find_Some_iff)
  from a c cn obtain uid where u: "assert_user auth d = Inr uid"
    and none: "get_package d cname (new_package_name np) = None"
    and d'': "d'' = d\<lparr>packages := packages d
                        @ [\<lparr>package_channel_name = cname,
                            package_name = new_package_name np,
                            package_description = new_package_description np\<rparr>],
                     package_members := package_members d
                        @ [(cname, new_package_name np, uid, OWNER)]\<rparr>"
    by (auto simp: post_package_def get_channel_or_fail_def create_package_def
        split: sum.splits option.splits)
  from none have "get_package d'' cname (new_package_name np)
             = Some \<lparr>package_channel_name = cname, package_name = new_package_name np,
                      package_description = new_package_description np\<rparr>"
    by (simp add: d'' get_package_def find_append_None)
  with u d'' show "\<exists>uid. assert_user auth d = Inr uid
         \<and> get_package d'' cname (new_package_name np)
             = Some \<lparr>package_channel_name = cname, package_name = new_package_name np,
                      package_description = new_package_description np\<rparr>
         \<and> (cname, new_package_name np, uid, OWNER) \<in> set (package_members d'')"
    by simp
qed

theorem creator_is_owner_witness:
  "post_channel (conda_forge []) (get_rules None bob_session) example_db
     = (Inr (), example_db\<lparr>channels := channels example_db @ [conda_forge []],
          channel_members := channel_members example_db @ [(''conda-forge'', ''u-bob'', OWNER)]\<rparr>)
   \<and> (''conda-forge'', ''u-bob'', OWNER)
       \<in> set (channel_members (snd (post_channel (conda_forge []) (get_rules None bob_session)
                 example_db)))
   \<and> post_package ''main'' scipy_package (get_rules None bob_session) example_db
     = (Inr (), example_db\<lparr>packages := packages example_db
          @ [\<lparr>package_channel_name = ''main'', package_name = ''scipy'',
              package_description = []\<rparr>],
          package_members := package_members example_db
          @ [(''main'', ''scipy'', ''u-bob'', OWNER)]\<rparr>)
   \<and> (''main'', ''scipy'', ''u-bob'', OWNER)
       \<in> set (package_members (snd (post_package ''main'' scipy_package
                 (get_rules None bob_session) example_db)))"
proof -
  let ?b = "get_rules None bob_session"
  have ub: "assert_user ?b example_db = Inr ''u-bob''"
    by (simp add: assert_user_def resolve_principal_def resolve_session_def get_rules_def
        bob_session_def)
  have c: "post_channel (conda_forge []) ?b example_db
     = (Inr (), example_db\<lparr>channels := channels example_db @ [conda_forge []],
          channel_members := channel_members example_db @ [(''conda-forge'', ''u-bob'', OWNER)]\<rparr>)"
    by (simp add: post_channel_def assert_user_def resolve_principal_def resolve_session_def
        get_rules_def bob_session_def get_channel_def create_channel_def example_db_def
        conda_forge_def)
  have p: "post_package ''main'' scipy_package ?b example_db
     = (Inr (), example_db\<lparr>packages := packages example_db
          @ [\<lparr>package_channel_name = ''main'', package_name = ''scipy'',
              package_description = []\<rparr>],
          package_members := package_members example_db
          @ [(''main'', ''scipy'', ''u-bob'', OWNER)]\<rparr>)"
    by (simp add: post_package_def assert_user_def resolve_principal_def resolve_session_def
        get_rules_def bob_session_def get_channel_or_fail_def get_channel_def get_package_def
        create_package_def example_db_def scipy_package_def)
  from creator_is_owner [of "conda_forge []" ?b example_db _ "''main''" scipy_package] c p ub
  show ?thesis by (simp add: conda_forge_def scipy_package_def)
qed

subsection \<open>The same channel name twice\<close>

lemma get_channel_named: "get_channel d n = None \<longleftrightarrow> named n d = []"
  by (auto simp: get_channel_def named_def find_None_iff filter_empty_conv)

lemma create_channel_fresh:
  assumes "named (channel_name c) d = []"
  shows "create_channel d c u r
           = (Inr (), d\<lparr>channels := channels d @ [c],
                        channel_members := channel_members d @ [(channel_name c, u, r)]\<rparr>)"
  using assms by (simp add: create_channel_def get_channel_named split: option.splits)

lemma create_channel_taken:
  assumes "named (channel_name c) d \<noteq> []"
  shows "create_channel d c u r = (Inl (HTTPException HTTP_409_CONFLICT), d)"
  using assms by (auto simp: create_channel_def get_channel_named split: option.splits)

lemma race_inv_sym: "race_inv n d0 u1 u2 (p1, p2, d) = race_inv n d0 u2 u1 (p2, p1, d)"
  by (auto simp: race_inv_def)

lemma race_inv_step:
  assumes inv: "race_inv n d0 u1 u2 (p1, p2, d)"
    and n: "channel_name c1 = n"
    and u: "assert_user a1 d0 = Inr u1"
    and st: "post_channel_step c1 a1 p1 d = (p1', d')"
  shows "race_inv n d0 u1 u2 (p1', p2, d')"
proof -
  from inv have k: "api_keys d = api_keys d0" by (simp add: race_inv_def)
  have au: "assert_user a1 d = Inr u1"
    using u assert_user_api_keys [OF k, of a1] by simp
  show ?thesis
  proof (cases p1)
    case AtAssertUser
    with st au have "p1' = AtGetChannel u1" "d' = d" by auto
    with inv AtAssertUser show ?thesis by (auto simp: race_inv_def under_way_def)
  next
    case (AtGetChannel x)
    with inv have x: "x = u1" by (auto simp: race_inv_def under_way_def)
    show ?thesis
    proof (cases "named n d = []")
      case True
      then have "get_channel d (channel_name c1) = None" by (simp add: n get_channel_named)
      with st AtGetChannel have "p1' = AtCreateChannel x" "d' = d" by auto
      with inv AtGetChannel x show ?thesis by (auto simp: race_inv_def under_way_def)
    next
      case False
      then have "get_channel d (channel_name c1) \<noteq> None" by (simp add: n get_channel_named)
      with st AtGetChannel
      have "p1' = Finished (Inl (HTTPException HTTP_409_CONFLICT))" "d' = d" by auto
      with inv AtGetChannel False show ?thesis by (auto simp: race_inv_def under_way_def)
    qed
  next
    case (AtCreateChannel x)
    with inv have x: "x = u1" by (auto simp: race_inv_def under_way_def)
    show ?thesis
    proof (cases "named n d = []")
      case True
      from True n have t: "named (channel_name c1) d = []" by simp
      from st AtCreateChannel create_channel_fresh [OF t]
      have p: "p1' = Finished (Inr ())"
        and d: "d' = d\<lparr>channels := channels d @ [c1],
                        channel_members := channel_members d @ [(channel_name c1, x, OWNER)]\<rparr>"
        by auto
      from d True n have "length (named n d') = 1" "api_keys d' = api_keys d"
        by (simp_all add: named_def)
      with inv AtCreateChannel True p k show ?thesis
        by (auto simp: race_inv_def under_way_def)
    next
      case False
      from False n have t: "named (channel_name c1) d \<noteq> []" by simp
      from st AtCreateChannel create_channel_taken [OF t]
      have "p1' = Finished (Inl (HTTPException HTTP_409_CONFLICT))" "d' = d" by auto
      with inv AtCreateChannel False show ?thesis by (auto simp: race_inv_def under_way_def)
    qed
  next
    case (Finished r)
    with st have "p1' = p1" "d' = d" by auto
    with inv show ?thesis by simp
  qed
qed

lemma race_inv_interleave:
  assumes "race_inv n d0 u1 u2 st"
    and "channel_name c1 = n" and "channel_name c2 = n"
    and "assert_user a1 d0 = Inr u1" and "assert_user a2 d0 = Inr u2"
  shows "race_inv n d0 u1 u2 (interleave c1 a1 c2 a2 sched st)"
  using assms(1)
proof (induction sched arbitrary: st)
  case Nil
  then show ?case by simp
next
  case (Cons b bs)
  obtain p1 p2 d where st: "st = (p1, p2, d)" by (cases st)
  show ?case
  proof (cases b)
    case True
    obtain p1' d' where s: "post_channel_step c1 a1 p1 d = (p1', d')"
      by (cases "post_channel_step c1 a1 p1 d")
    from Cons.prems st have "race_inv n d0 u1 u2 (p1, p2, d)" by simp
    from race_inv_step [OF this assms(2) assms(4) s]
    have "race_inv n d0 u1 u2 (p1', p2, d')" .
    from Cons.IH [OF this] show ?thesis using True st s by simp
  next
    case False
    obtain p2' d' where s: "post_channel_step c2 a2 p2 d = (p2', d')"
      by (cases "post_channel_step c2 a2 p2 d")
    from Cons.prems st have "race_inv n d0 u2 u1 (p2, p1, d)"
      by (simp add: race_inv_sym)
    from race_inv_step [OF this assms(3) assms(5) s]
    have "race_inv n d0 u1 u2 (p1, p2', d')" by (simp add: race_inv_sym)
    from Cons.IH [OF this] show ?thesis using False st s by simp
  qed
qed

lemma step_remaining:
  "post_channel_step c a p d = (p', d') \<Longrightarrow> remaining p' \<le> remaining p - 1"
  by (cases p) (auto split: sum.splits option.splits prod.splits)

lemma interleave_remaining:
  assumes "interleave c1 a1 c2 a2 sched (p1, p2, d) = (q1, q2, d')"
  shows "remaining q1 \<le> remaining p1 - length (filter id sched)
       \<and> remaining q2 \<le> remaining p2 - length (filter Not sched)"
  using assms
proof (induction sched arbitrary: p1 p2 d)
  case Nil
  then show ?case by simp
next
  case (Cons b bs)
  show ?case
  proof (cases b)
    case True
    obtain p1' d1 where s: "post_channel_step c1 a1 p1 d = (p1', d1)"
      by (cases "post_channel_step c1 a1 p1 d")
    with Cons.prems True have "interleave c1 a1 c2 a2 bs (p1', p2, d1) = (q1, q2, d')"
      by simp
    from Cons.IH [OF this] step_remaining [OF s] True show ?thesis by auto
  next
    case False
    obtain p2' d1 where s: "post_channel_step c2 a2 p2 d = (p2', d1)"
      by (cases "post_channel_step c2 a2 p2 d")
    with Cons.prems False have "interleave c1 a1 c2 a2 bs (p1, p2', d1) = (q1, q2, d')"
      by simp
    from Cons.IH [OF this] step_remaining [OF s] False show ?thesis by auto
  qed
qed

lemma remaining_0: "remaining p = 0 \<Longrightarrow> \<exists>r. p = Finished r"
  by (cases p) auto

text \<open>
  Three steps of one handler, with the other one at rest, are \<open>post_channel\<close>.
\<close>

lemma post_channel_steps:
  "interleave c1 a1 c2 a2 [True, True, True] (AtAssertUser, p2, d)
     = (Finished (fst (post_channel c1 a1 d)), p2, snd (post_channel c1 a1 d))"
  by (simp add: post_channel_def create_channel_def split: sum.splits option.splits)

text \<open>
  C8. Two authenticated POST /channels requests carry the same name, which no channel
  has yet. Run one after the other, the first succeeds and creates the channel with its
  caller as owner, and the second fails with 409 and leaves the database as the first
  left it. Run under any schedule that lets both handlers finish, whatever the order of
  their steps, one ends with success and the other with 409, and the database then has
  exactly one channel of that name.
\<close>

theorem same_name_created_once:
  assumes "channel_name c1 = channel_name c2"
    and "get_channel d (channel_name c1) = None"
    and "assert_user a1 d = Inr u1"
    and "assert_user a2 d = Inr u2"
    and "3 \<le> length (filter (\<lambda>b. b) sched)"
    and "3 \<le> length (filter (\<lambda>b. \<not> b) sched)"
    and "d1 = d\<lparr>channels := channels d @ [c1],
                  channel_members := channel_members d @ [(channel_name c1, u1, OWNER)]\<rparr>"
  shows "post_channel c1 a1 d = (Inr (), d1)
       \<and> post_channel c2 a2 d1 = (Inl (HTTPException HTTP_409_CONFLICT), d1)
       \<and> (\<exists>d'. (interleave c1 a1 c2 a2 sched (AtAssertUser, AtAssertUser, d)
                    = (Finished (Inr ()), Finished (Inl (HTTPException HTTP_409_CONFLICT)), d')
                 \<or> interleave c1 a1 c2 a2 sched (AtAssertUser, AtAssertUser, d)
                    = (Finished (Inl (HTTPException HTTP_409_CONFLICT)), Finished (Inr ()), d'))
               \<and> length (named (channel_name c1) d') = 1)"
proof -
  let ?n = "channel_name c1"
  have fresh: "named ?n d = []" using assms(2) by (simp add: get_channel_named)
  have first: "post_channel c1 a1 d = (Inr (), d1)"
    using assms(2,3,7) by (simp add: post_channel_def create_channel_def)
  have "api_keys d1 = api_keys d" using assms(7) by simp
  then have "assert_user a2 d1 = assert_user a2 d" by (rule assert_user_api_keys)
  then have u2: "assert_user a2 d1 = Inr u2" using assms(4) by simp
  have "named ?n d1 \<noteq> []" using assms(7) by (simp add: named_def)
  then have "get_channel d1 (channel_name c2) \<noteq> None"
    using assms(1) by (simp add: get_channel_named)
  then have second: "post_channel c2 a2 d1 = (Inl (HTTPException HTTP_409_CONFLICT), d1)"
    using u2 by (auto simp: post_channel_def)
  obtain q1 q2 d' where run:
    "interleave c1 a1 c2 a2 sched (AtAssertUser, AtAssertUser, d) = (q1, q2, d')"
    by (cases "interleave c1 a1 c2 a2 sched (AtAssertUser, AtAssertUser, d)")
  have "race_inv ?n d u1 u2 (AtAssertUser, AtAssertUser, d)"
    using fresh by (simp add: race_inv_def under_way_def)
  from race_inv_interleave [OF this refl assms(1) [symmetric] assms(3,4), of sched] run
  have inv: "race_inv ?n d u1 u2 (q1, q2, d')" by simp
  from interleave_remaining [OF run] assms(5,6)
  have "remaining q1 = 0" "remaining q2 = 0" by (simp_all add: id_def)
  then obtain r1 r2 where fin: "q1 = Finished r1" "q2 = Finished r2"
    using remaining_0 by blast
  from inv fin have
    "((r1 = Inr () \<and> r2 = Inl (HTTPException HTTP_409_CONFLICT))
       \<or> (r1 = Inl (HTTPException HTTP_409_CONFLICT) \<and> r2 = Inr ()))
     \<and> length (named ?n d') = 1"
    by (auto simp: race_inv_def under_way_def)
  with run fin have
    "(interleave c1 a1 c2 a2 sched (AtAssertUser, AtAssertUser, d)
        = (Finished (Inr ()), Finished (Inl (HTTPException HTTP_409_CONFLICT)), d')
      \<or> interleave c1 a1 c2 a2 sched (AtAssertUser, AtAssertUser, d)
        = (Finished (Inl (HTTPException HTTP_409_CONFLICT)), Finished (Inr ()), d'))
     \<and> length (named ?n d') = 1"
    by auto
  with first second show ?thesis by blast
qed

theorem same_name_created_once_witness:
  "get_channel example_db ''conda-forge'' = None
   \<and> post_channel (conda_forge ''by alice'') (get_rules None alice_session) example_db
       = (Inr (), example_db\<lparr>channels := channels example_db @ [conda_forge ''by alice''],
            channel_members := channel_members example_db
               @ [(''conda-forge'', ''u-alice'', OWNER)]\<rparr>)
   \<and> post_channel (conda_forge ''by bob'') (get_rules None bob_session)
         (example_db\<lparr>channels := channels example_db @ [conda_forge ''by alice''],
            channel_members := channel_members example_db
               @ [(''conda-forge'', ''u-alice'', OWNER)]\<rparr>)
       = (Inl (HTTPException HTTP_409_CONFLICT),
          example_db\<lparr>channels := channels example_db @ [conda_forge ''by alice''],
            channel_members := channel_members example_db
               @ [(''conda-forge'', ''u-alice'', OWNER)]\<rparr>)
   \<and> interleave (conda_forge ''by alice'') (get_rules None alice_session)
         (conda_forge ''by bob'') (get_rules None bob_session)
         [True, False, True, False, False, True] (AtAssertUser, AtAssertUser, example_db)
       = (Finished (Inl (HTTPException HTTP_409_CONFLICT)), Finished (Inr ()),
          example_db\<lparr>channels := channels example_db @ [conda_forge ''by bob''],
            channel_members := channel_members example_db
               @ [(''conda-forge'', ''u-bob'', OWNER)]\<rparr>)"
proof -
  let ?a = "get_rules None alice_session" and ?b = "get_rules None bob_session"
  let ?d1 = "example_db\<lparr>channels := channels example_db @ [conda_forge ''by alice''],
            channel_members := channel_members example_db
               @ [(''conda-forge'', ''u-alice'', OWNER)]\<rparr>"
  have n: "channel_name (conda_forge ''by alice'') = channel_name (conda_forge ''by bob'')"
    by (simp add: conda_forge_def)
  have f: "get_channel example_db (channel_name (conda_forge ''by alice'')) = None"
    by (simp add: get_channel_def example_db_def conda_forge_def)
  have ua: "assert_user ?a example_db = Inr ''u-alice''"
    and ub: "assert_user ?b example_db = Inr ''u-bob''"
    by (simp_all add: assert_user_def resolve_principal_def resolve_session_def get_rules_def
        alice_session_def bob_session_def)
  have s1: "3 \<le> length (filter (\<lambda>b. b) [True, False, True, False, False, True])"
    and s2: "3 \<le> length (filter (\<lambda>b. \<not> b) [True, False, True, False, False, True])"
    by simp_all
  have d1: "?d1 = example_db\<lparr>channels := channels example_db @ [conda_forge ''by alice''],
      channel_members := channel_members example_db
        @ [(channel_name (conda_forge ''by alice''), ''u-alice'', OWNER)]\<rparr>"
    by (simp add: conda_forge_def)
  have run: "interleave (conda_forge ''by alice'') ?a (conda_forge ''by bob'') ?b
         [True, False, True, False, False, True] (AtAssertUser, AtAssertUser, example_db)
       = (Finished (Inl (HTTPException HTTP_409_CONFLICT)), Finished (Inr ()),
          example_db\<lparr>channels := channels example_db @ [conda_forge ''by bob''],
            channel_members := channel_members example_db
               @ [(''conda-forge'', ''u-bob'', OWNER)]\<rparr>)"
    by (simp add: assert_user_def resolve_principal_def resolve_session_def get_rules_def
        alice_session_def bob_session_def get_channel_def create_channel_def example_db_def
        conda_forge_def)
  from same_name_created_once [OF n f ua ub s1 s2 d1] f run
  show ?thesis by (simp add: conda_forge_def)
qed

end
